theory Spec2Isabelle
  imports Complex_Main
begin

section \<open>Python strings\<close>

text \<open>
  Python \<^verbatim>\<open>str\<close> values are modelled as HOL strings. The character classes below are
  Python's on the ASCII range (code points below 128); a character outside that range
  belongs to no class and is left alone by \<^verbatim>\<open>lower\<close>.
\<close>

definition is_upper :: "char \<Rightarrow> bool" where
  "is_upper c = (c \<in> set ''ABCDEFGHIJKLMNOPQRSTUVWXYZ'')"

definition is_lower :: "char \<Rightarrow> bool" where
  "is_lower c = (c \<in> set ''abcdefghijklmnopqrstuvwxyz'')"

definition is_digit :: "char \<Rightarrow> bool" where
  "is_digit c = (c \<in> set ''0123456789'')"

definition is_alpha :: "char \<Rightarrow> bool" where
  "is_alpha c = (is_upper c \<or> is_lower c)"

text \<open>\<^verbatim>\<open>\w\<close>: letters, digits and the underscore.\<close>

definition is_word :: "char \<Rightarrow> bool" where
  "is_word c = (is_alpha c \<or> is_digit c \<or> c = CHR ''_'')"

text \<open>
  \<^verbatim>\<open>\s\<close>, \<^verbatim>\<open>str.strip\<close> and \<^verbatim>\<open>str.split\<close>: the ASCII characters Python counts as
  white space are 9 to 13, 28 to 31 and 32.
\<close>

definition is_space :: "char \<Rightarrow> bool" where
  "is_space c = (c \<in> set [CHR 0x09, CHR 0x0A, CHR 0x0B, CHR 0x0C, CHR 0x0D,
                           CHR 0x1C, CHR 0x1D, CHR 0x1E, CHR 0x1F, CHR '' ''])"

fun lower_char :: "char \<Rightarrow> char" where
  "lower_char (Char b0 b1 b2 b3 b4 b5 b6 b7) =
     (if is_upper (Char b0 b1 b2 b3 b4 b5 b6 b7) then Char b0 b1 b2 b3 b4 True b6 b7
      else Char b0 b1 b2 b3 b4 b5 b6 b7)"

fun upper_char :: "char \<Rightarrow> char" where
  "upper_char (Char b0 b1 b2 b3 b4 b5 b6 b7) =
     (if is_lower (Char b0 b1 b2 b3 b4 b5 b6 b7) then Char b0 b1 b2 b3 b4 False b6 b7
      else Char b0 b1 b2 b3 b4 b5 b6 b7)"

definition py_lower :: "string \<Rightarrow> string" where
  "py_lower s = map lower_char s"

text \<open>\<^verbatim>\<open>s.startswith(p)\<close>.\<close>

fun starts_with :: "string \<Rightarrow> string \<Rightarrow> bool" where
  "starts_with s [] = True"
| "starts_with [] (p # ps) = False"
| "starts_with (c # cs) (p # ps) = (c = p \<and> starts_with cs ps)"

text \<open>\<^verbatim>\<open>sub in s\<close>: \<open>sub\<close> occurs in \<open>s\<close> as a contiguous piece.\<close>

fun py_in :: "string \<Rightarrow> string \<Rightarrow> bool" where
  "py_in sub [] = (sub = [])"
| "py_in sub (c # cs) = (starts_with (c # cs) sub \<or> py_in sub cs)"

section \<open>Reminder scheduler: \<^verbatim>\<open>MedicationReminder.parse_frequency\<close>\<close>

definition parse_frequency :: "string \<Rightarrow> string list" where
  "parse_frequency frequency =
    (let frequency_lower = py_lower frequency in
     if py_in ''morning'' frequency_lower \<and> py_in ''night'' frequency_lower
       then [''08:00'', ''20:00'']
     else if py_in ''morning'' frequency_lower \<and> py_in ''afternoon'' frequency_lower
       then [''08:00'', ''14:00'']
     else if py_in ''morning'' frequency_lower then [''08:00'']
     else if py_in ''night'' frequency_lower then [''20:00'']
     else if py_in ''tds'' frequency_lower \<or> py_in ''t.d.s'' frequency_lower
       then [''08:00'', ''14:00'', ''20:00'']
     else if py_in ''q6h'' frequency_lower \<or> py_in ''qid'' frequency_lower
       then [''06:00'', ''12:00'', ''18:00'', ''00:00'']
     else if py_in ''q8h'' frequency_lower then [''08:00'', ''16:00'', ''00:00'']
     else if py_in ''q12h'' frequency_lower \<or> py_in ''bid'' frequency_lower
       then [''08:00'', ''20:00'']
     else if py_in ''1-0-1'' frequency_lower \<or> py_in ''1 0 1'' frequency_lower
       then [''08:00'', ''20:00'']
     else if py_in ''1-1-1'' frequency_lower \<or> py_in ''1 1 1'' frequency_lower
       then [''08:00'', ''14:00'', ''20:00'']
     else if py_in ''1-1-0'' frequency_lower \<or> py_in ''1 1 0'' frequency_lower
       then [''08:00'', ''14:00'']
     else if py_in ''0-1-1'' frequency_lower \<or> py_in ''0 1 1'' frequency_lower
       then [''14:00'', ''20:00'']
     else if py_in ''1-0-0'' frequency_lower \<or> py_in ''1 0 0'' frequency_lower
       then [''08:00'']
     else if py_in ''0-0-1'' frequency_lower \<or> py_in ''0 0 1'' frequency_lower
       then [''20:00'']
     else if py_in ''once daily'' frequency_lower \<or> py_in ''daily'' frequency_lower
       then [''09:00'']
     else if py_in ''twice daily'' frequency_lower then [''09:00'', ''21:00'']
     else if py_in ''three times daily'' frequency_lower
       then [''08:00'', ''14:00'', ''20:00'']
     else if py_in ''four times daily'' frequency_lower
       then [''08:00'', ''12:00'', ''16:00'', ''20:00'']
     else if py_in ''every 6 hours'' frequency_lower
       then [''06:00'', ''12:00'', ''18:00'', ''00:00'']
     else if py_in ''every 8 hours'' frequency_lower then [''08:00'', ''16:00'', ''00:00'']
     else if py_in ''every 12 hours'' frequency_lower then [''08:00'', ''20:00'']
     else if py_in ''sos'' frequency_lower \<or> py_in ''as needed'' frequency_lower then []
     else [''09:00''])"

section \<open>The frequency lexicon and the labels of the frequency interpreter\<close>

text \<open>
  A Python dict literal keeps the position of the first occurrence of a key and the
  value of its last occurrence.
\<close>

fun dict_set :: "(string \<times> 'v) list \<Rightarrow> string \<Rightarrow> 'v \<Rightarrow> (string \<times> 'v) list" where
  "dict_set [] k v = [(k, v)]"
| "dict_set ((k', v') # d) k v = (if k' = k then (k', v) # d else (k', v') # dict_set d k v)"

definition dict_literal :: "(string \<times> 'v) list \<Rightarrow> (string \<times> 'v) list" where
  "dict_literal kvs = foldl (\<lambda>d (k, v). dict_set d k v) [] kvs"

definition frequency_patterns :: "(string \<times> string list) list" where
  "frequency_patterns = dict_literal
    [(''once daily (morning)'',
        [''once daily'', ''once a day'', ''qd'', ''q.d.'', ''daily'', ''every 24 hours'',
         ''1-0-0'', ''1 0 0'']),
     (''twice daily (morning & night)'',
        [''twice daily'', ''twice a day'', ''bid'', ''b.i.d.'', ''every 12 hours'',
         ''1-0-1'', ''1 0 1'']),
     (''three times daily (morning, afternoon & night)'',
        [''three times daily'', ''three times a day'', ''tid'', ''t.i.d.'', ''every 8 hours'',
         ''1-1-1'', ''1 1 1'']),
     (''twice daily (morning & afternoon)'', [''1-1-0'', ''1 1 0'']),
     (''twice daily (afternoon & night)'', [''0-1-1'', ''0 1 1'']),
     (''four times daily'',
        [''four times daily'', ''four times a day'', ''qid'', ''q.i.d.'', ''every 6 hours'']),
     (''every 6 hours'', [''every 6 hours'', ''q6h'', ''q.6.h.'']),
     (''every 8 hours'', [''every 8 hours'', ''q8h'', ''q.8.h.'']),
     (''every 12 hours'', [''every 12 hours'', ''q12h'', ''q.12.h.'']),
     (''as needed'', [''as needed'', ''prn'', ''p.r.n.'', ''when required'', ''sos'']),
     (''before meals'', [''before meals'', ''ac'', ''a.c.'', ''ante cibum'']),
     (''after meals'', [''after meals'', ''pc'', ''p.c.'', ''post cibum'', ''after food'']),
     (''at bedtime'', [''at bedtime'', ''hs'', ''h.s.'', ''hora somni'', ''before sleep'']),
     (''every 6 hours'', [''q6h'', ''qid'', ''every 6 hours'']),
     (''three times daily'', [''tds'', ''t.d.s.'', ''three times daily'']),
     (''once daily (morning)'', [''1 morning'', ''morning'']),
     (''once daily (night)'', [''1 night'', ''night'']),
     (''twice daily (morning & night)'', [''1 morning, 1 night'', ''morning and night''])]"

text \<open>The descriptions of \<^verbatim>\<open>timing_patterns\<close> in \<^verbatim>\<open>extract_frequency_near_medication\<close>.\<close>

definition timing_descriptions :: "string list" where
  "timing_descriptions =
    [''twice daily (morning & night)'',
     ''three times daily (morning, afternoon & night)'',
     ''once daily (morning)'',
     ''once daily (night)'',
     ''twice daily (morning & afternoon)'',
     ''twice daily (afternoon & night)'',
     ''twice daily (2 morning & 2 night)'',
     ''four times daily (1 morning, 2 afternoon, 1 night)'']"

text \<open>\<^verbatim>\<open>str(n)\<close> for a natural number.\<close>

definition digit_char :: "nat \<Rightarrow> char" where
  "digit_char d = ''0123456789'' ! d"

fun py_str_nat :: "nat \<Rightarrow> string" where
  "py_str_nat n = (if n < 10 then [digit_char n] else py_str_nat (n div 10) @ [digit_char (n mod 10)])"

text \<open>
  The label that the generic \<^verbatim>\<open>(\d)-(\d)-(\d)\<close> branch of
  \<^verbatim>\<open>extract_frequency_near_medication\<close> builds from the three digits.
\<close>

definition triplet_label :: "nat \<Rightarrow> nat \<Rightarrow> nat \<Rightarrow> string" where
  "triplet_label morning afternoon night =
    (let total_doses = morning + afternoon + night in
     if total_doses = 1 then
       (if morning = 1 then ''once daily (morning)''
        else if afternoon = 1 then ''once daily (afternoon)''
        else ''once daily (night)'')
     else if total_doses = 2 then
       (if morning = 1 \<and> night = 1 then ''twice daily (morning & night)''
        else if morning = 1 \<and> afternoon = 1 then ''twice daily (morning & afternoon)''
        else ''twice daily (afternoon & night)'')
     else if total_doses = 3 then ''three times daily (morning, afternoon & night)''
     else py_str_nat total_doses @ '' times daily'')"

text \<open>
  The labels of the generic triplet branch: the seven named ones, and
  \<^verbatim>\<open>f'{total_doses} times daily'\<close> for a sum of three decimal digits other than 1, 2, 3.
\<close>

definition triplet_labels :: "string list" where
  "triplet_labels =
    [''once daily (morning)'', ''once daily (afternoon)'', ''once daily (night)'',
     ''twice daily (morning & night)'', ''twice daily (morning & afternoon)'',
     ''twice daily (afternoon & night)'',
     ''three times daily (morning, afternoon & night)''] @
    map (\<lambda>total_doses. py_str_nat total_doses @ '' times daily'') (0 # [4..<28])"

text \<open>
  Every label \<^verbatim>\<open>extract_frequency_near_medication\<close> can return: a timing description, a
  key of the frequency lexicon, a label of the generic triplet branch, or the default.
\<close>

definition canonical_labels :: "string list" where
  "canonical_labels =
     timing_descriptions @ map fst frequency_patterns @ triplet_labels @ [''daily'']"

section \<open>Clock strings\<close>

definition digit_val :: "char \<Rightarrow> nat" where
  "digit_val c = of_char c - 48"

fun valid_hhmm :: "string \<Rightarrow> bool" where
  "valid_hhmm [h1, h2, c, m1, m2] =
     (is_digit h1 \<and> is_digit h2 \<and> c = CHR '':'' \<and> is_digit m1 \<and> is_digit m2 \<and>
      digit_val h1 * 10 + digit_val h2 < 24 \<and> digit_val m1 * 10 + digit_val m2 < 60)"
| "valid_hhmm _ = False"

fun clock_minutes :: "string \<Rightarrow> nat" where
  "clock_minutes [h1, h2, c, m1, m2] =
     (digit_val h1 * 10 + digit_val h2) * 60 + digit_val m1 * 10 + digit_val m2"
| "clock_minutes _ = 0"

section \<open>Expected doses: \<^verbatim>\<open>MedicationReminder._calculate_expected_doses\<close>\<close>

text \<open>
  The clock is a parameter: \<open>now\<close> is the value of \<^verbatim>\<open>datetime.utcnow()\<close> and
  \<open>start_date\<close> the start, both in seconds. The \<^verbatim>\<open>days\<close> of a \<^verbatim>\<open>timedelta\<close> are the
  difference divided by a day, rounded down.
\<close>

definition timedelta_days :: "int \<Rightarrow> int \<Rightarrow> int" where
  "timedelta_days now start_date = (now - start_date) div 86400"

definition calculate_expected_doses :: "string \<Rightarrow> int \<Rightarrow> int \<Rightarrow> int" where
  "calculate_expected_doses frequency now start_date =
    (let frequency_lower = py_lower frequency;
         days_since_start = timedelta_days now start_date in
     if py_in ''once daily'' frequency_lower \<or> py_in ''daily'' frequency_lower
       then days_since_start
     else if py_in ''twice daily'' frequency_lower \<or> py_in ''bid'' frequency_lower
       then days_since_start * 2
     else if py_in ''three times daily'' frequency_lower \<or> py_in ''tid'' frequency_lower
       then days_since_start * 3
     else if py_in ''four times daily'' frequency_lower \<or> py_in ''qid'' frequency_lower
       then days_since_start * 4
     else if py_in ''every 6 hours'' frequency_lower \<or> py_in ''q6h'' frequency_lower
       then days_since_start * 4
     else if py_in ''every 8 hours'' frequency_lower \<or> py_in ''q8h'' frequency_lower
       then days_since_start * 3
     else if py_in ''every 12 hours'' frequency_lower \<or> py_in ''q12h'' frequency_lower
       then days_since_start * 2
     else days_since_start)"

section \<open>More string operations\<close>

text \<open>\<^verbatim>\<open>s.strip()\<close>: white space removed at both ends.\<close>

definition py_strip :: "string \<Rightarrow> string" where
  "py_strip s = rev (dropWhile is_space (rev (dropWhile is_space s)))"

text \<open>\<^verbatim>\<open>s.isdigit()\<close>: at least one character, and digits only.\<close>

definition py_isdigit :: "string \<Rightarrow> bool" where
  "py_isdigit s = (s \<noteq> [] \<and> list_all is_digit s)"

section \<open>Medication candidates and records\<close>

text \<open>
  The dict that both extraction strategies build and the merger returns. The confidence
  is a Python float, 0.8 or 0.7 in candidates of this program; it is modelled by a
  rational number, which adds and compares as the floats do on such values.
\<close>

record medication =
  name :: string
  dosage :: string
  frequency :: string
  duration :: string
  instructions :: string
  confidence :: rat
  source :: string

datatype py_error = AttributeError | TypeError | IndexError

section \<open>Regular expressions as Python's \<^verbatim>\<open>re\<close> matches them\<close>

datatype cclass = CDigit | CSpace | CUpper | CLower | COneOf string

datatype regex =
    Eps
  | Lit string
  | Chr "cclass list"
  | WordB
  | Seq regex regex
  | Alt regex regex
  | Star regex
  | Group nat regex

fun class_item :: "cclass \<Rightarrow> char \<Rightarrow> bool" where
  "class_item CDigit c = is_digit c"
| "class_item CSpace c = is_space c"
| "class_item CUpper c = is_upper c"
| "class_item CLower c = is_lower c"
| "class_item (COneOf s) c = (c \<in> set s)"

definition class_match :: "bool \<Rightarrow> cclass list \<Rightarrow> char \<Rightarrow> bool" where
  "class_match ic items c =
     (list_ex (\<lambda>i. class_item i c) items \<or>
      (ic \<and> list_ex (\<lambda>i. class_item i (lower_char c) \<or> class_item i (upper_char c)) items))"

definition char_eq :: "bool \<Rightarrow> char \<Rightarrow> char \<Rightarrow> bool" where
  "char_eq ic a b = (a = b \<or> (ic \<and> lower_char a = lower_char b))"

type_synonym captures = "(nat \<times> nat \<times> nat) list"
type_synonym mstate = "captures \<times> char option \<times> string \<times> nat"

fun lit_match :: "bool \<Rightarrow> string \<Rightarrow> mstate \<Rightarrow> mstate list" where
  "lit_match ic [] st = [st]"
| "lit_match ic (l # ls) (caps, prev, [], pos) = []"
| "lit_match ic (l # ls) (caps, prev, c # cs, pos) =
     (if char_eq ic l c then lit_match ic ls (caps, Some c, cs, Suc pos) else [])"

fun word_before :: "char option \<Rightarrow> bool" where
  "word_before None = False"
| "word_before (Some c) = is_word c"

fun word_after :: "string \<Rightarrow> bool" where
  "word_after [] = False"
| "word_after (c # cs) = is_word c"

fun rest_of :: "mstate \<Rightarrow> string" where
  "rest_of (caps, prev, rest, pos) = rest"

fun rmatch :: "bool \<Rightarrow> regex \<Rightarrow> mstate \<Rightarrow> mstate list" where
  "rmatch ic Eps st = [st]"
| "rmatch ic (Lit s) st = lit_match ic s st"
| "rmatch ic (Chr items) (caps, prev, [], pos) = []"
| "rmatch ic (Chr items) (caps, prev, c # cs, pos) =
     (if class_match ic items c then [(caps, Some c, cs, Suc pos)] else [])"
| "rmatch ic WordB (caps, prev, rest, pos) =
     (if word_before prev \<noteq> word_after rest then [(caps, prev, rest, pos)] else [])"
| "rmatch ic (Seq a b) st = concat (map (rmatch ic b) (rmatch ic a st))"
| "rmatch ic (Alt a b) st = rmatch ic a st @ rmatch ic b st"
| "rmatch ic (Star a) st =
     concat (map (\<lambda>st'. if length (rest_of st') < length (rest_of st) then rmatch ic (Star a) st' else [])
               (rmatch ic a st)) @ [st]"
| "rmatch ic (Group k a) (caps, prev, rest, pos) =
     map (\<lambda>(caps', prev', rest', pos'). ((k, pos, pos') # caps', prev', rest', pos'))
       (rmatch ic a (caps, prev, rest, pos))"

text \<open>Derived forms: \<^verbatim>\<open>r+\<close>, \<^verbatim>\<open>r?\<close>, \<^verbatim>\<open>r{m,n}\<close>, all greedy, and sequences and alternatives of several parts.\<close>

definition Plus :: "regex \<Rightarrow> regex" where
  "Plus r = Seq r (Star r)"

definition Opt :: "regex \<Rightarrow> regex" where
  "Opt r = Alt r Eps"

fun at_most :: "nat \<Rightarrow> regex \<Rightarrow> regex" where
  "at_most 0 r = Eps"
| "at_most (Suc n) r = Opt (Seq r (at_most n r))"

fun Rep :: "nat \<Rightarrow> nat \<Rightarrow> regex \<Rightarrow> regex" where
  "Rep 0 n r = at_most n r"
| "Rep (Suc m) n r = Seq r (Rep m (n - 1) r)"

fun Seqs :: "regex list \<Rightarrow> regex" where
  "Seqs [] = Eps"
| "Seqs [r] = r"
| "Seqs (r # rs) = Seq r (Seqs rs)"

fun Alts :: "regex list \<Rightarrow> regex" where
  "Alts [] = Chr []"
| "Alts [r] = r"
| "Alts (r # rs) = Alt r (Alts rs)"

fun ngroups :: "regex \<Rightarrow> nat" where
  "ngroups (Seq a b) = ngroups a + ngroups b"
| "ngroups (Alt a b) = ngroups a + ngroups b"
| "ngroups (Star a) = ngroups a"
| "ngroups (Group k a) = Suc (ngroups a)"
| "ngroups _ = 0"

text \<open>A match object: start, end, the groups, and the cursor at its end.\<close>

record re_match =
  m_start :: nat
  m_end :: nat
  m_caps :: captures
  m_prev :: "char option"
  m_rest :: string

fun first_match :: "nat \<Rightarrow> mstate list \<Rightarrow> re_match option" where
  "first_match start [] = None"
| "first_match start ((caps, prev, rest, pos) # sts) =
     Some \<lparr>m_start = start, m_end = pos, m_caps = caps, m_prev = prev, m_rest = rest\<rparr>"

text \<open>\<^verbatim>\<open>re.search\<close> from a cursor: the leftmost start that has a match, and there the first
  match in the order of backtracking.\<close>

fun search_from :: "bool \<Rightarrow> regex \<Rightarrow> char option \<Rightarrow> string \<Rightarrow> nat \<Rightarrow> re_match option" where
  "search_from ic r prev [] pos = first_match pos (rmatch ic r ([], prev, [], pos))"
| "search_from ic r prev (c # cs) pos =
     (case first_match pos (rmatch ic r ([], prev, c # cs, pos)) of
        Some m \<Rightarrow> Some m
      | None \<Rightarrow> search_from ic r (Some c) cs (Suc pos))"

definition re_search :: "bool \<Rightarrow> regex \<Rightarrow> string \<Rightarrow> re_match option" where
  "re_search ic r text = search_from ic r None text 0"

text \<open>\<^verbatim>\<open>re.finditer\<close>: the next search starts where the last match ended. The patterns of this
  program match at least one character; a match that consumes nothing would end the
  iteration here.\<close>

function finditer_from :: "bool \<Rightarrow> regex \<Rightarrow> char option \<Rightarrow> string \<Rightarrow> nat \<Rightarrow> re_match list" where
  "finditer_from ic r prev rest pos =
     (case search_from ic r prev rest pos of
        None \<Rightarrow> []
      | Some m \<Rightarrow>
          (if length (m_rest m) < length rest
           then m # finditer_from ic r (m_prev m) (m_rest m) (m_end m)
           else [m]))"
  by pat_completeness auto
termination
  by (relation "measure (\<lambda>(ic, r, prev, rest, pos). length rest)") auto

definition re_finditer :: "bool \<Rightarrow> regex \<Rightarrow> string \<Rightarrow> re_match list" where
  "re_finditer ic r text = finditer_from ic r None text 0"

text \<open>\<^verbatim>\<open>text[a:b]\<close> for indices that are not negative.\<close>

definition slice :: "string \<Rightarrow> nat \<Rightarrow> nat \<Rightarrow> string" where
  "slice text a b = take (b - a) (drop a text)"

text \<open>\<^verbatim>\<open>match.group(k)\<close>: the text of the last match of group \<open>k\<close>, or \<^verbatim>\<open>None\<close>.\<close>

fun lookup_group :: "captures \<Rightarrow> nat \<Rightarrow> (nat \<times> nat) option" where
  "lookup_group [] k = None"
| "lookup_group ((k', s, e) # caps) k = (if k' = k then Some (s, e) else lookup_group caps k)"

definition re_group :: "string \<Rightarrow> re_match \<Rightarrow> nat \<Rightarrow> string option" where
  "re_group text m k = (case lookup_group (m_caps m) k of
                          None \<Rightarrow> None
                        | Some (s, e) \<Rightarrow> Some (slice text s e))"

text \<open>\<^verbatim>\<open>match.groups()\<close>: all groups of the pattern, from 1.\<close>

definition re_groups :: "regex \<Rightarrow> string \<Rightarrow> re_match \<Rightarrow> string option list" where
  "re_groups r text m = map (re_group text m) [1..<Suc (ngroups r)]"

section \<open>String operations of the extractors\<close>

text \<open>\<^verbatim>\<open>s.find(sub)\<close>: the index of the first occurrence, \<open>None\<close> for \<^verbatim>\<open>-1\<close>.\<close>

fun find_from :: "string \<Rightarrow> string \<Rightarrow> nat \<Rightarrow> nat option" where
  "find_from [] sub pos = (if sub = [] then Some pos else None)"
| "find_from (c # cs) sub pos =
     (if starts_with (c # cs) sub then Some pos else find_from cs sub (Suc pos))"

definition py_find :: "string \<Rightarrow> string \<Rightarrow> nat option" where
  "py_find s sub = find_from s sub 0"

text \<open>\<^verbatim>\<open>s.split()\<close>: the maximal runs of characters that are not white space.\<close>

fun split_words :: "string \<Rightarrow> string \<Rightarrow> string list" where
  "split_words cur [] = (if cur = [] then [] else [cur])"
| "split_words cur (c # cs) =
     (if is_space c then (if cur = [] then split_words [] cs else cur # split_words [] cs)
      else split_words (cur @ [c]) cs)"

definition py_split :: "string \<Rightarrow> string list" where
  "py_split s = split_words [] s"

text \<open>\<^verbatim>\<open>s.title()\<close>: a letter after a letter is put in lower case, any other letter in upper
  case.\<close>

fun title_from :: "bool \<Rightarrow> string \<Rightarrow> string" where
  "title_from prev_cased [] = []"
| "title_from prev_cased (c # cs) =
     (if is_alpha c then (if prev_cased then lower_char c else upper_char c) # title_from True cs
      else c # title_from False cs)"

definition py_title :: "string \<Rightarrow> string" where
  "py_title s = title_from False s"

text \<open>\<^verbatim>\<open>int(s)\<close> for a string of decimal digits, and how an f-string prints a group that may
  be \<^verbatim>\<open>None\<close>.\<close>

definition py_int :: "string \<Rightarrow> nat" where
  "py_int s = foldl (\<lambda>n c. 10 * n + digit_val c) 0 s"

fun py_fmt :: "string option \<Rightarrow> string" where
  "py_fmt None = ''None''"
| "py_fmt (Some s) = s"

text \<open>A loop whose body may raise: the first error ends it.\<close>

fun fold_err :: "('s \<Rightarrow> 'a \<Rightarrow> py_error + 's) \<Rightarrow> 'a list \<Rightarrow> 's \<Rightarrow> py_error + 's" where
  "fold_err f [] s = Inr s"
| "fold_err f (x # xs) s = (case f s x of Inl e \<Rightarrow> Inl e | Inr s' \<Rightarrow> fold_err f xs s')"

section \<open>The lexicon and the patterns of \<^verbatim>\<open>AIProcessor\<close>\<close>

definition medication_database :: "(string \<times> string list) list" where
  "medication_database = dict_literal
    [(''aspirin'', [''aspirin'', ''acetylsalicylic acid'', ''asa'']),
     (''ibuprofen'', [''ibuprofen'', ''advil'', ''motrin'', ''brufen'']),
     (''acetaminophen'', [''acetaminophen'', ''paracetamol'', ''tylenol'']),
     (''amoxicillin'', [''amoxicillin'', ''amoxil'', ''trimox'']),
     (''augmentin'', [''augmentin'']),
     (''metformin'', [''metformin'', ''glucophage'']),
     (''lisinopril'', [''lisinopril'', ''prinivil'', ''zestril'']),
     (''atorvastatin'', [''atorvastatin'', ''lipitor'']),
     (''omeprazole'', [''omeprazole'', ''prilosec'']),
     (''pand'', [''pand'']),
     (''simvastatin'', [''simvastatin'', ''zocor'']),
     (''metoprolol'', [''metoprolol'', ''lopressor'', ''toprol'']),
     (''losartan'', [''losartan'', ''cozaar'']),
     (''amlodipine'', [''amlodipine'', ''norvasc'']),
     (''hydrochlorothiazide'', [''hydrochlorothiazide'', ''hctz'', ''microzide'']),
     (''pantoprazole'', [''pantoprazole'', ''protonix'']),
     (''carvedilol'', [''carvedilol'', ''coreg'']),
     (''furosemide'', [''furosemide'', ''lasix'']),
     (''spironolactone'', [''spironolactone'', ''aldactone'']),
     (''tramadol'', [''tramadol'', ''ultram'']),
     (''gabapentin'', [''gabapentin'', ''neurontin'']),
     (''duloxetine'', [''duloxetine'', ''cymbalta'']),
     (''enzoflam'', [''enzoflam'']),
     (''hexigel'', [''hexigel'']),
     (''calpol'', [''calpol'', ''syp calpol'']),
     (''delcon'', [''delcon'', ''syp delcon'']),
     (''levolin'', [''levolin'', ''syp levolin'']),
     (''meftol'', [''meftol'', ''meftol-p'', ''syp meftol'', ''syp meftol-p'']),
     (''abciximab'', [''abciximab'', ''tab abciximab'']),
     (''vomilast'', [''vomilast'', ''tab vomilast'']),
     (''zoclar'', [''zoclar'', ''cap zoclar'']),
     (''gestakind'', [''gestakind'', ''tab gestakind''])]"

text \<open>The pieces that the patterns share:
  \<^verbatim>\<open>\d+\<close>, \<^verbatim>\<open>\s*\<close>, \<^verbatim>\<open>\d+(?:\.\d+)?\<close>, \<^verbatim>\<open>mg|ml|g|mcg|units?\<close> and
  \<^verbatim>\<open>\b[A-Z][a-z]+(?:[-\s][A-Z][a-z]+)*\<close>.\<close>

definition digits_re :: regex where
  "digits_re = Plus (Chr [CDigit])"

definition spaces_re :: regex where
  "spaces_re = Star (Chr [CSpace])"

definition num_re :: regex where
  "num_re = Seq digits_re (Opt (Seq (Lit ''.'') digits_re))"

definition unit_re :: regex where
  "unit_re = Alts [Lit ''mg'', Lit ''ml'', Lit ''g'', Lit ''mcg'', Seq (Lit ''unit'') (Opt (Lit ''s''))]"

definition name_re :: regex where
  "name_re = Seqs [WordB, Chr [CUpper], Plus (Chr [CLower]),
                   Star (Seqs [Chr [COneOf ''-'', CSpace], Chr [CUpper], Plus (Chr [CLower])])]"

text \<open>The ten patterns of \<^verbatim>\<open>pattern_based_extraction\<close>, in their order.\<close>

definition extraction_patterns :: "regex list" where
  \<open>extraction_patterns =
    [\<comment> \<open>\<^verbatim>\<open>(NAME)\s*(NUM)\s*(UNIT)\b\<close>\<close>
     Seqs [Group 1 name_re, spaces_re, Group 2 num_re, spaces_re, Group 3 unit_re, WordB],
     \<comment> \<open>\<^verbatim>\<open>(NAME)\s*(NUM)\s*(UNIT)\s*(tablet|capsule|pill|dose|tab|caps)\b\<close>\<close>
     Seqs [Group 1 name_re, spaces_re, Group 2 num_re, spaces_re, Group 3 unit_re, spaces_re,
           Group 4 (Alts [Lit ''tablet'', Lit ''capsule'', Lit ''pill'', Lit ''dose'', Lit ''tab'',
                          Lit ''caps'']), WordB],
     \<comment> \<open>\<^verbatim>\<open>(NAME)\s*(NUM)\s*(UNIT)\s*(once|twice|thrice|daily|bid|tid|qid)\b\<close>\<close>
     Seqs [Group 1 name_re, spaces_re, Group 2 num_re, spaces_re, Group 3 unit_re, spaces_re,
           Group 4 (Alts [Lit ''once'', Lit ''twice'', Lit ''thrice'', Lit ''daily'', Lit ''bid'',
                          Lit ''tid'', Lit ''qid'']), WordB],
     \<comment> \<open>\<^verbatim>\<open>(Tab\.|Caps\.|Syr\.|Inj\.|Tablet|Capsule|Syrup|Injection)\s*(NAME)\s*(NUM)\s*(UNIT)\b\<close>\<close>
     Seqs [Group 1 (Alts [Lit ''Tab.'', Lit ''Caps.'', Lit ''Syr.'', Lit ''Inj.'', Lit ''Tablet'',
                          Lit ''Capsule'', Lit ''Syrup'', Lit ''Injection'']), spaces_re,
           Group 2 name_re, spaces_re, Group 3 num_re, spaces_re, Group 4 unit_re, WordB],
     \<comment> \<open>\<^verbatim>\<open>(NAME)\s*(NUM)\s*(UNIT)\s*(1-0-1|1-0-0|1-1-1|0-0-1|1-1-0)\b\<close>\<close>
     Seqs [Group 1 name_re, spaces_re, Group 2 num_re, spaces_re, Group 3 unit_re, spaces_re,
           Group 4 (Alts [Lit ''1-0-1'', Lit ''1-0-0'', Lit ''1-1-1'', Lit ''0-0-1'', Lit ''1-1-0'']),
           WordB],
     \<comment> \<open>\<^verbatim>\<open>(NUM)\s*(UNIT)\s*(NAME)\b\<close>\<close>
     Seqs [Group 1 num_re, spaces_re, Group 2 unit_re, spaces_re, Group 3 name_re, WordB],
     \<comment> \<open>\<^verbatim>\<open>(NAME)\s*(?:strength|dose|dosage)?\s*(NUM)\s*(UNIT)\b\<close>\<close>
     Seqs [Group 1 name_re, spaces_re, Opt (Alts [Lit ''strength'', Lit ''dose'', Lit ''dosage'']),
           spaces_re, Group 2 num_re, spaces_re, Group 3 unit_re, WordB],
     \<comment> \<open>\<^verbatim>\<open>(aspirin|ibuprofen|...|omeprazole)\s*(NUM)\s*(UNIT)\b\<close>\<close>
     Seqs [Group 1 (Alts [Lit ''aspirin'', Lit ''ibuprofen'', Lit ''acetaminophen'',
                          Lit ''paracetamol'', Lit ''amoxicillin'', Lit ''metformin'',
                          Lit ''lisinopril'', Lit ''atorvastatin'', Lit ''omeprazole'']), spaces_re,
           Group 2 num_re, spaces_re, Group 3 unit_re, WordB],
     \<comment> \<open>\<^verbatim>\<open>Tab\.\s*(NAME)\s*(NUM)\s*(UNIT)\b\<close>\<close>
     Seqs [Lit ''Tab.'', spaces_re, Group 1 name_re, spaces_re, Group 2 num_re, spaces_re,
           Group 3 unit_re, WordB],
     \<comment> \<open>\<^verbatim>\<open>Tab\.\s*(NAME)\b\<close>\<close>
     Seqs [Lit ''Tab.'', spaces_re, Group 1 name_re, WordB]]\<close>

text \<open>The pattern \<^verbatim>\<open>(NAME)\b\<close> of the forward scan in the two-group branch.\<close>

definition forward_name_pattern :: regex where
  "forward_name_pattern = Seq (Group 1 name_re) WordB"

text \<open>The five patterns of \<^verbatim>\<open>extract_dosage_near_medication\<close>, and \<^verbatim>\<open>\b(\d{2,4})\b\<close>.\<close>

definition dosage_patterns :: "regex list" where
  \<open>dosage_patterns =
    [\<comment> \<open>\<^verbatim>\<open>(NUM)\s*(UNIT)\b\<close>\<close>
     Seqs [Group 1 num_re, spaces_re, Group 2 unit_re, WordB],
     \<comment> \<open>\<^verbatim>\<open>(NUM)\s*(UNIT)\s*(tablet|capsule|pill|dose)\b\<close>\<close>
     Seqs [Group 1 num_re, spaces_re, Group 2 unit_re, spaces_re,
           Group 3 (Alts [Lit ''tablet'', Lit ''capsule'', Lit ''pill'', Lit ''dose'']), WordB],
     \<comment> \<open>\<^verbatim>\<open>\b(625|500|250|125|40|20|10|5)\s*(mg|ml)\b\<close>\<close>
     Seqs [WordB, Group 1 (Alts [Lit ''625'', Lit ''500'', Lit ''250'', Lit ''125'', Lit ''40'',
                                 Lit ''20'', Lit ''10'', Lit ''5'']), spaces_re,
           Group 2 (Alts [Lit ''mg'', Lit ''ml'']), WordB],
     \<comment> \<open>\<^verbatim>\<open>\b(\d{2,4})\s*(?:mg|ml)\b\<close>\<close>
     Seqs [WordB, Group 1 (Rep 2 4 (Chr [CDigit])), spaces_re, Alts [Lit ''mg'', Lit ''ml''], WordB],
     \<comment> \<open>\<^verbatim>\<open>\b(\d{2,4})\s*(?:mg|ml|m|g)\b\<close>\<close>
     Seqs [WordB, Group 1 (Rep 2 4 (Chr [CDigit])), spaces_re,
           Alts [Lit ''mg'', Lit ''ml'', Lit ''m'', Lit ''g''], WordB]]\<close>

definition bare_number_pattern :: regex where
  "bare_number_pattern = Seqs [WordB, Group 1 (Rep 2 4 (Chr [CDigit])), WordB]"

definition common_dosages :: "nat list" where
  "common_dosages = [625, 500, 250, 125, 100, 75, 50, 40, 25, 20, 10, 5]"

text \<open>The timing patterns of \<^verbatim>\<open>extract_frequency_near_medication\<close> with their descriptions,
  and \<^verbatim>\<open>(\d)-(\d)-(\d)\<close>.\<close>

definition timing_patterns :: "(regex \<times> string) list" where
  "timing_patterns =
    [(Alt (Lit ''1-0-1'') (Lit ''1 0 1''), ''twice daily (morning & night)''),
     (Alt (Lit ''1-1-1'') (Lit ''1 1 1''), ''three times daily (morning, afternoon & night)''),
     (Alt (Lit ''1-0-0'') (Lit ''1 0 0''), ''once daily (morning)''),
     (Alt (Lit ''0-0-1'') (Lit ''0 0 1''), ''once daily (night)''),
     (Alt (Lit ''1-1-0'') (Lit ''1 1 0''), ''twice daily (morning & afternoon)''),
     (Alt (Lit ''0-1-1'') (Lit ''0 1 1''), ''twice daily (afternoon & night)''),
     (Alt (Lit ''2-0-2'') (Lit ''2 0 2''), ''twice daily (2 morning & 2 night)''),
     (Alt (Lit ''1-2-1'') (Lit ''1 2 1''), ''four times daily (1 morning, 2 afternoon, 1 night)'')]"

definition triplet_pattern :: regex where
  "triplet_pattern = Seqs [Group 1 (Chr [CDigit]), Lit ''-'', Group 2 (Chr [CDigit]), Lit ''-'',
                           Group 3 (Chr [CDigit])]"

text \<open>The duration patterns, a dict from the unit to its pattern:
  \<^verbatim>\<open>(\d+)\s*(days?|d)\<close>, \<^verbatim>\<open>(\d+)\s*(weeks?|wks?|w)\<close>, \<^verbatim>\<open>(\d+)\s*(months?|mos?|m)\<close>,
  \<^verbatim>\<open>(\d+)\s*(years?|yrs?|y)\<close>.\<close>

definition duration_patterns :: "(string \<times> regex) list" where
  "duration_patterns = dict_literal
    [(''days'', Seqs [Group 1 digits_re, spaces_re,
                     Group 2 (Alts [Seq (Lit ''day'') (Opt (Lit ''s'')), Lit ''d''])]),
     (''weeks'', Seqs [Group 1 digits_re, spaces_re,
                      Group 2 (Alts [Seq (Lit ''week'') (Opt (Lit ''s'')),
                                     Seq (Lit ''wk'') (Opt (Lit ''s'')), Lit ''w''])]),
     (''months'', Seqs [Group 1 digits_re, spaces_re,
                       Group 2 (Alts [Seq (Lit ''month'') (Opt (Lit ''s'')),
                                      Seq (Lit ''mo'') (Opt (Lit ''s'')), Lit ''m''])]),
     (''years'', Seqs [Group 1 digits_re, spaces_re,
                      Group 2 (Alts [Seq (Lit ''year'') (Opt (Lit ''s'')),
                                     Seq (Lit ''yr'') (Opt (Lit ''s'')), Lit ''y''])])]"

section \<open>Entity merger: \<^verbatim>\<open>AIProcessor.merge_medications\<close>\<close>

definition invalid_name :: "string \<Rightarrow> bool" where
  "invalid_name med_name =
     (med_name = [] \<or> length med_name < 2 \<or> py_isdigit med_name \<or>
      py_lower med_name \<in> set [''mg'', ''ml'', ''tablet'', ''cap'', ''tab'', ''unknown medication''])"

text \<open>
  The groups are a dict from key to member list, in insertion order. The inner loop takes
  the first existing key that equals, is contained in, or contains the new name.
\<close>

type_synonym groups = "(string \<times> medication list) list"

fun find_group_key :: "string list \<Rightarrow> string \<Rightarrow> string option" where
  "find_group_key [] med_name_lower = None"
| "find_group_key (existing_key # keys) med_name_lower =
     (if existing_key = med_name_lower \<or> py_in existing_key med_name_lower \<or>
         py_in med_name_lower existing_key
      then Some existing_key
      else find_group_key keys med_name_lower)"

fun group_append :: "groups \<Rightarrow> string \<Rightarrow> medication \<Rightarrow> groups" where
  "group_append [] group_key med = [(group_key, [med])]"
| "group_append ((k, meds) # gs) group_key med =
     (if k = group_key then (k, meds @ [med]) # gs else (k, meds) # group_append gs group_key med)"

definition group_step :: "groups \<Rightarrow> medication \<Rightarrow> groups" where
  "group_step gs med =
     (let med_name = py_strip (name med) in
      if invalid_name med_name then gs
      else
        let med_name_lower = py_lower med_name in
        (case find_group_key (map fst gs) med_name_lower of
           Some group_key \<Rightarrow> group_append gs group_key med
         | None \<Rightarrow> group_append gs med_name_lower med))"

definition group_medications :: "medication list \<Rightarrow> groups" where
  "group_medications medications = foldl group_step [] medications"

definition score :: "medication \<Rightarrow> rat" where
  "score med =
     (if py_in ''mg'' (dosage med) \<or> py_in ''ml'' (dosage med) then 3
      else if py_in ''tablet'' (dosage med) then 1
      else if \<not> py_in ''Unknown'' (dosage med) then 2 else 0) +
     (if py_in ''1-0-1'' (frequency med) \<or> py_in ''twice'' (frequency med) then 2
      else if \<not> py_in ''daily'' (frequency med) then 1 else 0) +
     (if py_in ''5 days'' (duration med) \<or> py_in ''1 week'' (duration med) then 2
      else if \<not> py_in ''7 days'' (duration med) \<and> list_ex is_digit (duration med) then 1
      else 0) +
     confidence med"

text \<open>The first loop over a group: the first member of strictly highest score, from \<open>-1\<close>.\<close>

fun select_best :: "medication option \<times> rat \<Rightarrow> medication list \<Rightarrow> medication option \<times> rat" where
  "select_best (best_med, best_score) [] = (best_med, best_score)"
| "select_best (best_med, best_score) (med # meds) =
     (if score med > best_score then select_best (Some med, score med) meds
      else select_best (best_med, best_score) meds)"

definition is_better_dosage :: "string \<Rightarrow> string \<Rightarrow> bool" where
  "is_better_dosage new_dosage existing_dosage =
     (if py_in ''Unknown'' existing_dosage \<and> \<not> py_in ''Unknown'' new_dosage then True
      else if py_in ''mg'' new_dosage \<and> py_in ''tablet'' existing_dosage then True
      else if py_in ''ml'' new_dosage \<and> py_in ''tablet'' existing_dosage then True
      else False)"

definition is_better_frequency :: "string \<Rightarrow> string \<Rightarrow> bool" where
  "is_better_frequency new_freq existing_freq =
     (if py_in ''daily'' existing_freq \<and>
         (py_in ''1-0-1'' new_freq \<or> py_in ''twice'' new_freq \<or> py_in ''three'' new_freq)
      then True
      else if length new_freq > length existing_freq \<and> \<not> py_in ''daily'' new_freq then True
      else False)"

definition is_better_duration :: "string \<Rightarrow> string \<Rightarrow> bool" where
  "is_better_duration new_duration existing_duration =
     (if py_in ''7 days'' existing_duration \<and> \<not> py_in ''7 days'' new_duration then True
      else if py_in ''5 days'' new_duration \<and> py_in ''7 days'' existing_duration then True
      else False)"

text \<open>
  One round of the second loop: a member equal to the representative as it stands is
  passed over; any other member may overwrite dosage, frequency and duration, and fills in
  empty instructions.
\<close>

definition backfill_step :: "medication \<Rightarrow> medication \<Rightarrow> medication" where
  "backfill_step best_med med =
     (if med = best_med then best_med
      else
        let b1 = (if is_better_dosage (dosage med) (dosage best_med)
                  then best_med\<lparr>dosage := dosage med\<rparr> else best_med);
            b2 = (if is_better_frequency (frequency med) (frequency b1)
                  then b1\<lparr>frequency := frequency med\<rparr> else b1);
            b3 = (if is_better_duration (duration med) (duration b2)
                  then b2\<lparr>duration := duration med\<rparr> else b2)
        in if instructions med \<noteq> [] \<and> instructions b3 = []
           then b3\<lparr>instructions := instructions med\<rparr> else b3)"

text \<open>
  The reduction of one group. When no member scores above \<open>-1\<close> the representative is
  still \<^verbatim>\<open>None\<close> in the second loop, and subscripting it raises \<^verbatim>\<open>TypeError\<close>.
\<close>

definition merge_group :: "medication list \<Rightarrow> py_error + medication list" where
  "merge_group group_meds =
     (if group_meds = [] then Inr []
      else case fst (select_best (None, -1) group_meds) of
             None \<Rightarrow> Inl TypeError
           | Some best_med \<Rightarrow> Inr [foldl backfill_step best_med group_meds])"

fun merge_groups :: "medication list list \<Rightarrow> py_error + medication list" where
  "merge_groups [] = Inr []"
| "merge_groups (group_meds # rest) =
     (case merge_group group_meds of
        Inl e \<Rightarrow> Inl e
      | Inr best \<Rightarrow> (case merge_groups rest of Inl e \<Rightarrow> Inl e | Inr merged \<Rightarrow> Inr (best @ merged)))"

definition merge_medications :: "medication list \<Rightarrow> py_error + medication list" where
  "merge_medications medications = merge_groups (map snd (group_medications medications))"

text \<open>
  The key under which the merger files a record, and the condition that no key of a list
  is contained in another one (a key is contained in itself, so the keys are distinct too).
\<close>

definition group_key_of :: "medication \<Rightarrow> string" where
  "group_key_of med = py_lower (py_strip (name med))"

fun names_apart :: "string list \<Rightarrow> bool" where
  "names_apart [] = True"
| "names_apart (k # ks) = (list_all (\<lambda>k'. \<not> py_in k k' \<and> \<not> py_in k' k) ks \<and> names_apart ks)"

section \<open>Text normalizer: \<^verbatim>\<open>AIProcessor.clean_text\<close>\<close>

text \<open>
  \<^verbatim>\<open>re.sub(r'\s+', ' ', text)\<close>: every maximal run of white space becomes one space. Of a
  run, all characters but the last are dropped and the last one is written as a space.
\<close>

fun sub_spaces :: "string \<Rightarrow> string" where
  "sub_spaces [] = []"
| "sub_spaces [c] = [if is_space c then CHR '' '' else c]"
| "sub_spaces (c # d # cs) =
     (if is_space c then (if is_space d then sub_spaces (d # cs) else CHR '' '' # sub_spaces (d # cs))
      else c # sub_spaces (d # cs))"

text \<open>
  The characters that the class \<^verbatim>\<open>[^\w\s.,:;()\[\]{}/\-+=%]\<close> does not match: word
  characters, white space and the listed punctuation.
\<close>

definition kept_punctuation :: string where
  "kept_punctuation = ''.,:;()[]{}/-+=%''"

definition keep_char :: "char \<Rightarrow> bool" where
  "keep_char c = (is_word c \<or> is_space c \<or> c \<in> set kept_punctuation)"

definition clean_text :: "string \<Rightarrow> string" where
  "clean_text text =
     (let text1 = sub_spaces (py_strip text);
          text2 = map (\<lambda>c. if keep_char c then c else CHR '' '') text1
      in text2)"

text \<open>
  The argument of \<^verbatim>\<open>clean_text\<close> as a Python value: the method calls \<^verbatim>\<open>text.strip()\<close> on
  whatever it is given, and \<^verbatim>\<open>None\<close> and numbers have no such attribute.
\<close>

datatype py_value = PyStr string | PyNone | PyInt int

fun clean_text_value :: "py_value \<Rightarrow> py_error + string" where
  "clean_text_value (PyStr text) = Inr (clean_text text)"
| "clean_text_value PyNone = Inl AttributeError"
| "clean_text_value (PyInt n) = Inl AttributeError"



definition ascii_text :: "string \<Rightarrow> bool" where
  "ascii_text s = list_all (\<lambda>c. (of_char c :: nat) < 128) s"


section \<open>The text cleaner of the OCR stage: \<^verbatim>\<open>PrescriptionOCR.clean_text\<close>\<close>

text \<open>
  \<^verbatim>\<open>re.sub(r'\bx\b', y, text)\<close> for a word character \<open>x\<close>: every \<open>x\<close> that has no word
  character before it and none after it becomes \<open>y\<close>. The cleaner of the OCR stage starts as
  the normalizer does and then rewrites a \<^verbatim>\<open>0\<close> that stands alone to \<^verbatim>\<open>O\<close> and an \<^verbatim>\<open>l\<close> that
  stands alone to \<^verbatim>\<open>I\<close>.
\<close>

fun sub_standalone :: "char \<Rightarrow> char \<Rightarrow> char option \<Rightarrow> string \<Rightarrow> string" where
  "sub_standalone x y prev [] = []"
| "sub_standalone x y prev (c # cs) =
     (if c = x \<and> \<not> word_before prev \<and> \<not> word_after cs then y else c) #
     sub_standalone x y (Some c) cs"

definition ocr_clean_text :: "string \<Rightarrow> string" where
  "ocr_clean_text text =
     (let text1 = sub_spaces (py_strip text);
          text2 = map (\<lambda>c. if keep_char c then c else CHR '' '') text1;
          text3 = sub_standalone CHR ''0'' CHR ''O'' None text2;
          text4 = sub_standalone CHR ''l'' CHR ''I'' None text3
      in text4)"

section \<open>Sub-extractors: dosage, frequency and duration near a mention\<close>

text \<open>
  The fall-back of the dosage and frequency extractors, taken when the mention is not
  found: a loop over \<^verbatim>\<open>text.split()\<close> that calls \<^verbatim>\<open>self.fuzzy_match\<close> on each word. The
  class defines no such method and nothing else in the repository does, so the first round
  of the loop raises \<^verbatim>\<open>AttributeError\<close>; with no word to loop over, the \<^verbatim>\<open>else\<close> of the loop
  returns the default.
\<close>

definition fuzzy_fallback :: "string \<Rightarrow> string \<Rightarrow> py_error + string" where
  "fuzzy_fallback text default_value =
     (case py_split text of [] \<Rightarrow> Inr default_value | word # words \<Rightarrow> Inl AttributeError)"

text \<open>What \<^verbatim>\<open>findall\<close> gives for a match: the tuple of the groups when the pattern has several,
  the text of the group when it has one; an absent group counts as the empty string.\<close>

definition findall_group :: "string \<Rightarrow> re_match \<Rightarrow> nat \<Rightarrow> string" where
  "findall_group text m k = (case re_group text m k of None \<Rightarrow> [] | Some g \<Rightarrow> g)"

fun first_dosage :: "regex list \<Rightarrow> string \<Rightarrow> string option" where
  "first_dosage [] search_text = None"
| "first_dosage (pattern # patterns) search_text =
     (case re_search True pattern search_text of
        None \<Rightarrow> first_dosage patterns search_text
      | Some m \<Rightarrow>
          (if 2 \<le> ngroups pattern
           then Some (findall_group search_text m 1 @ '' '' @ findall_group search_text m 2)
           else Some (findall_group search_text m 1 @ '' mg'')))"

fun first_common_dosage :: "string list \<Rightarrow> string option" where
  "first_common_dosage [] = None"
| "first_common_dosage (num # numbers) =
     (if py_int num \<in> set common_dosages then Some (num @ '' mg'') else first_common_dosage numbers)"

definition dosage_in :: "string \<Rightarrow> string" where
  "dosage_in search_text =
     (case first_dosage dosage_patterns search_text of
        Some d \<Rightarrow> d
      | None \<Rightarrow>
          (let numbers = map (\<lambda>m. findall_group search_text m 1)
                             (re_finditer False bare_number_pattern search_text)
           in case first_common_dosage numbers of
                Some d \<Rightarrow> d
              | None \<Rightarrow> ''Unknown dosage''))"

definition extract_dosage_near_medication :: "string \<Rightarrow> string \<Rightarrow> py_error + string" where
  "extract_dosage_near_medication text medication_name =
     (case py_find (py_lower text) (py_lower medication_name) of
        None \<Rightarrow> fuzzy_fallback text ''Unknown dosage''
      | Some med_pos \<Rightarrow>
          (let start_pos = med_pos - 50;
               end_pos = min (length text) (med_pos + 150);
               search_text = slice text start_pos end_pos
           in Inr (dosage_in search_text)))"

fun first_timing :: "(regex \<times> string) list \<Rightarrow> string \<Rightarrow> string option" where
  "first_timing [] search_text = None"
| "first_timing ((pattern, description) # rest) search_text =
     (case re_search False pattern search_text of
        Some m \<Rightarrow> Some description
      | None \<Rightarrow> first_timing rest search_text)"

fun first_frequency :: "(string \<times> string list) list \<Rightarrow> string \<Rightarrow> string option" where
  "first_frequency [] search_text = None"
| "first_frequency ((freq, patterns) # rest) search_text =
     (if list_ex (\<lambda>pattern. py_in pattern search_text) patterns then Some freq
      else first_frequency rest search_text)"

definition frequency_in :: "string \<Rightarrow> string" where
  "frequency_in search_text =
     (case first_timing timing_patterns search_text of
        Some description \<Rightarrow> description
      | None \<Rightarrow>
          (case first_frequency frequency_patterns search_text of
             Some freq \<Rightarrow> freq
           | None \<Rightarrow>
               (case re_search False triplet_pattern search_text of
                  Some m \<Rightarrow>
                    triplet_label (py_int (findall_group search_text m 1))
                                  (py_int (findall_group search_text m 2))
                                  (py_int (findall_group search_text m 3))
                | None \<Rightarrow> ''daily'')))"

definition extract_frequency_near_medication :: "string \<Rightarrow> string \<Rightarrow> py_error + string" where
  "extract_frequency_near_medication text medication_name =
     (let text_lower = py_lower text in
      case py_find text_lower (py_lower medication_name) of
        None \<Rightarrow> fuzzy_fallback text ''daily''
      | Some med_pos \<Rightarrow>
          (let start_pos = med_pos - 100;
               end_pos = min (length text) (med_pos + 200);
               search_text = slice text_lower start_pos end_pos
           in Inr (frequency_in search_text)))"

definition parse_timing_instructions :: "string \<Rightarrow> string" where
  "parse_timing_instructions frequency_text =
     (case map_of
        [(''once daily (morning)'', ''Take 1 dose in the morning''),
         (''once daily (afternoon)'', ''Take 1 dose in the afternoon''),
         (''once daily (night)'', ''Take 1 dose at night''),
         (''twice daily (morning & night)'', ''Take 1 dose in the morning and 1 dose at night''),
         (''twice daily (morning & afternoon)'',
          ''Take 1 dose in the morning and 1 dose in the afternoon''),
         (''twice daily (afternoon & night)'', ''Take 1 dose in the afternoon and 1 dose at night''),
         (''three times daily (morning, afternoon & night)'',
          ''Take 1 dose in the morning, 1 dose in the afternoon, and 1 dose at night'')]
        frequency_text of
        Some instruction \<Rightarrow> instruction
      | None \<Rightarrow> frequency_text)"

fun first_duration :: "(string \<times> regex) list \<Rightarrow> string \<Rightarrow> string option" where
  "first_duration [] search_text = None"
| "first_duration ((duration_type, pattern) # rest) search_text =
     (case re_search False pattern search_text of
        Some m \<Rightarrow> Some (py_fmt (re_group search_text m 1) @ '' '' @ duration_type)
      | None \<Rightarrow> first_duration rest search_text)"

text \<open>The duration extractor has no fall-back: a mention that is not found gives the default.\<close>

definition extract_duration_near_medication :: "string \<Rightarrow> string \<Rightarrow> string" where
  "extract_duration_near_medication text medication_name =
     (let text_lower = py_lower text in
      case py_find text_lower (py_lower medication_name) of
        None \<Rightarrow> ''7 days''
      | Some med_pos \<Rightarrow>
          (let start_pos = med_pos - 100;
               end_pos = min (length text) (med_pos + 200);
               search_text = slice text_lower start_pos end_pos
           in case first_duration duration_patterns search_text of
                Some d \<Rightarrow> d
              | None \<Rightarrow> ''7 days''))"

section \<open>Lexicon-matching extractor: \<^verbatim>\<open>AIProcessor.rule_based_extraction\<close>\<close>

fun first_variation :: "string list \<Rightarrow> string \<Rightarrow> string option" where
  "first_variation [] text_lower = None"
| "first_variation (variation # variations) text_lower =
     (if py_in variation text_lower then Some variation else first_variation variations text_lower)"

text \<open>The state of both extraction loops: the candidates so far and the names found.\<close>

type_synonym extraction = "medication list \<times> string list"

definition rule_step :: "string \<Rightarrow> extraction \<Rightarrow> string \<times> string list \<Rightarrow> py_error + extraction" where
  "rule_step text st entry =
     (case (st, entry) of ((medications, found_medications), (med_name, variations)) \<Rightarrow>
        if med_name \<in> set found_medications then Inr (medications, found_medications)
        else
          (case first_variation variations (py_lower text) of
             None \<Rightarrow> Inr (medications, found_medications)
           | Some variation \<Rightarrow>
               (case extract_dosage_near_medication text variation of
                  Inl e \<Rightarrow> Inl e
                | Inr dosage_info \<Rightarrow>
                    (case extract_frequency_near_medication text variation of
                       Inl e \<Rightarrow> Inl e
                     | Inr frequency_info \<Rightarrow>
                         Inr (medications @
                                [\<lparr>name = py_title med_name,
                                  dosage = dosage_info,
                                  frequency = frequency_info,
                                  duration = extract_duration_near_medication text variation,
                                  instructions = parse_timing_instructions frequency_info,
                                  confidence = 8 / 10,
                                  source = ''rule_based''\<rparr>],
                              found_medications @ [med_name])))))"

definition rule_based_extraction :: "string \<Rightarrow> py_error + medication list" where
  "rule_based_extraction text =
     (case fold_err (rule_step text) medication_database ([], []) of
        Inl e \<Rightarrow> Inl e
      | Inr (medications, found_medications) \<Rightarrow> Inr medications)"

section \<open>Pattern extractor: \<^verbatim>\<open>AIProcessor.pattern_based_extraction\<close>\<close>

text \<open>
  The name and the dosage that the branches on \<^verbatim>\<open>len(groups)\<close> take from a match. A
  pattern with two groups would reach the dosage-first branch with its forward scan and
  its placeholder.
\<close>

definition name_and_dosage ::
    "string \<Rightarrow> re_match \<Rightarrow> string option list \<Rightarrow> py_error + (string option \<times> string)" where
  "name_and_dosage text m groups =
     (if 4 \<le> length groups
        then Inr (groups ! 1, py_fmt (groups ! 2) @ '' '' @ py_fmt (groups ! 3))
      else if 3 \<le> length groups
        then Inr (groups ! 0, py_fmt (groups ! 1) @ '' '' @ py_fmt (groups ! 2))
      else if length groups = 2 then
        (case groups ! 0 of
           None \<Rightarrow> Inl AttributeError
         | Some dosage_num \<Rightarrow>
             if py_isdigit dosage_num \<or> py_in ''.'' dosage_num then
               (let remaining_text = slice text (m_end m) (m_end m + 50);
                    med_name = (case re_search False forward_name_pattern remaining_text of
                                  Some med_match \<Rightarrow> re_group remaining_text med_match 1
                                | None \<Rightarrow> Some ''Unknown Medication'')
                in Inr (med_name, dosage_num @ '' '' @ py_fmt (groups ! 1)))
             else Inr (Some dosage_num, ''1 tablet''))
      else (case groups of [] \<Rightarrow> Inl IndexError | g # gs \<Rightarrow> Inr (g, ''1 tablet'')))"

definition pattern_step :: "string \<Rightarrow> regex \<Rightarrow> extraction \<Rightarrow> re_match \<Rightarrow> py_error + extraction" where
  "pattern_step text pattern st m =
     (case st of (medications, found_medications) \<Rightarrow>
        (case name_and_dosage text m (re_groups pattern text m) of
           Inl e \<Rightarrow> Inl e
         | Inr (None, dosage_str) \<Rightarrow> Inr (medications, found_medications)
         | Inr (Some med_name, dosage_str) \<Rightarrow>
             if med_name = [] \<or> length (py_strip med_name) < 3 \<or> py_isdigit (py_strip med_name)
               then Inr (medications, found_medications)
             else if py_lower (py_strip med_name) \<in> set found_medications
               then Inr (medications, found_medications)
             else
               (case extract_frequency_near_medication text med_name of
                  Inl e \<Rightarrow> Inl e
                | Inr frequency_info \<Rightarrow>
                    Inr (medications @
                           [\<lparr>name = py_title med_name,
                             dosage = dosage_str,
                             frequency = frequency_info,
                             duration = extract_duration_near_medication text med_name,
                             instructions = parse_timing_instructions frequency_info,
                             confidence = 7 / 10,
                             source = ''pattern_based''\<rparr>],
                         found_medications @ [py_lower (py_strip med_name)]))))"

definition pattern_based_extraction :: "string \<Rightarrow> py_error + medication list" where
  "pattern_based_extraction text =
     (case fold_err (\<lambda>st pattern. fold_err (pattern_step text pattern) (re_finditer True pattern text) st)
             extraction_patterns ([], []) of
        Inl e \<Rightarrow> Inl e
      | Inr (medications, found_medications) \<Rightarrow> Inr medications)"

section \<open>The pipeline: \<^verbatim>\<open>AIProcessor.extract_medications\<close>\<close>

definition extract_medications :: "string \<Rightarrow> py_error + medication list" where
  "extract_medications ocr_text =
     (let cleaned_text = clean_text ocr_text in
      case rule_based_extraction cleaned_text of
        Inl e \<Rightarrow> Inl e
      | Inr rule_based_meds \<Rightarrow>
          (case pattern_based_extraction cleaned_text of
             Inl e \<Rightarrow> Inl e
           | Inr pattern_meds \<Rightarrow> merge_medications (rule_based_meds @ pattern_meds)))"

text \<open>The pipeline on a Python value: \<^verbatim>\<open>clean_text\<close> is its first call.\<close>

definition extract_medications_value :: "py_value \<Rightarrow> py_error + medication list" where
  "extract_medications_value ocr_text =
     (case clean_text_value ocr_text of
        Inl e \<Rightarrow> Inl e
      | Inr cleaned_text \<Rightarrow>
          (case rule_based_extraction cleaned_text of
             Inl e \<Rightarrow> Inl e
           | Inr rule_based_meds \<Rightarrow>
               (case pattern_based_extraction cleaned_text of
                  Inl e \<Rightarrow> Inl e
                | Inr pattern_meds \<Rightarrow> merge_medications (rule_based_meds @ pattern_meds))))"

section \<open>Texts without letters\<close>

text \<open>
  A pattern that cannot match without reading a letter: a literal with a letter in it, a
  class of letters only, a sequence with such a part, an alternative of such parts.
\<close>

fun letter_item :: "cclass \<Rightarrow> bool" where
  "letter_item CUpper = True"
| "letter_item CLower = True"
| "letter_item (COneOf s) = list_all is_alpha s"
| "letter_item _ = False"

fun needs_letter :: "regex \<Rightarrow> bool" where
  "needs_letter (Lit s) = list_ex is_alpha s"
| "needs_letter (Chr items) = list_all letter_item items"
| "needs_letter (Seq a b) = (needs_letter a \<or> needs_letter b)"
| "needs_letter (Alt a b) = (needs_letter a \<and> needs_letter b)"
| "needs_letter (Group k a) = needs_letter a"
| "needs_letter _ = False"

definition letterless :: "string \<Rightarrow> bool" where
  "letterless s = list_all (\<lambda>c. \<not> is_alpha c) s"

section \<open>Where a candidate's name comes from\<close>

text \<open>
  A group of a match is absent or a piece \<^verbatim>\<open>text[a:b]\<close> of the text; a candidate of the
  pattern extractor has a name that is such a piece in title case, and confidence 0.7.
\<close>

definition piece_of :: "string \<Rightarrow> string option \<Rightarrow> bool" where
  "piece_of text g = (case g of None \<Rightarrow> True | Some s \<Rightarrow> (\<exists>a b. s = slice text a b))"

definition pattern_candidate :: "string \<Rightarrow> medication \<Rightarrow> bool" where
  "pattern_candidate text med =
     ((\<exists>a b. name med = py_title (slice text a b)) \<and> confidence med = 7 / 10)"


section \<open>Evaluation of the character classes\<close>

lemma is_upper_code [code]:
  "is_upper (Char b0 b1 b2 b3 b4 b5 b6 b7) =
     (\<not> b7 \<and> b6 \<and> \<not> b5 \<and>
      (if b4 then \<not> b3 \<or> \<not> b2 \<and> \<not> (b1 \<and> b0) else b3 \<or> b2 \<or> b1 \<or> b0))"
  by (cases b0; cases b1; cases b2; cases b3; cases b4; cases b5; cases b6; cases b7;
      simp add: is_upper_def)

lemma is_lower_code [code]:
  "is_lower (Char b0 b1 b2 b3 b4 b5 b6 b7) =
     (\<not> b7 \<and> b6 \<and> b5 \<and>
      (if b4 then \<not> b3 \<or> \<not> b2 \<and> \<not> (b1 \<and> b0) else b3 \<or> b2 \<or> b1 \<or> b0))"
  by (cases b0; cases b1; cases b2; cases b3; cases b4; cases b5; cases b6; cases b7;
      simp add: is_lower_def)

lemma is_digit_code [code]:
  "is_digit (Char b0 b1 b2 b3 b4 b5 b6 b7) =
     (\<not> b7 \<and> \<not> b6 \<and> b5 \<and> b4 \<and> (\<not> b3 \<or> \<not> b2 \<and> \<not> b1))"
  by (cases b0; cases b1; cases b2; cases b3; cases b4; cases b5; cases b6; cases b7;
      simp add: is_digit_def)

lemma is_space_code [code]:
  "is_space (Char b0 b1 b2 b3 b4 b5 b6 b7) =
     (\<not> b7 \<and> \<not> b6 \<and>
      (if b5 then \<not> b4 \<and> \<not> b3 \<and> \<not> b2 \<and> \<not> b1 \<and> \<not> b0
       else if b4 then b3 \<and> b2
       else b3 \<and> (if b2 then \<not> b1 else b1 \<or> b0)))"
  by (cases b0; cases b1; cases b2; cases b3; cases b4; cases b5; cases b6; cases b7;
      simp add: is_space_def)

section \<open>The entity merger\<close>

lemma score_ge_confidence: "confidence med \<le> score med"
  unfolding score_def by simp

lemma select_best_cases:
  "fst (select_best (b, s) ms) = b \<or> (\<exists>m \<in> set ms. fst (select_best (b, s) ms) = Some m)"
  by (induction ms arbitrary: b s) (auto split: if_splits)

lemma select_best_Some:
  "b \<noteq> None \<or> (\<exists>m \<in> set ms. s < score m) \<Longrightarrow> fst (select_best (b, s) ms) \<noteq> None"
proof (induction ms arbitrary: b s)
  case Nil
  then show ?case by simp
next
  case (Cons m ms)
  show ?case
  proof (cases "s < score m")
    case True
    then show ?thesis using Cons.IH [of "Some m" "score m"] by simp
  next
    case False
    with Cons.prems have "b \<noteq> None \<or> (\<exists>m \<in> set ms. s < score m)" by auto
    from Cons.IH [OF this] False show ?thesis by simp
  qed
qed

lemma backfill_step_name: "name (backfill_step b m) = name b"
  unfolding backfill_step_def Let_def by simp

lemma backfill_step_confidence: "confidence (backfill_step b m) = confidence b"
  unfolding backfill_step_def Let_def by simp

lemma foldl_backfill_name: "name (foldl backfill_step b ms) = name b"
  by (induction ms arbitrary: b) (simp_all add: backfill_step_name)

lemma foldl_backfill_confidence: "confidence (foldl backfill_step b ms) = confidence b"
  by (induction ms arbitrary: b) (simp_all add: backfill_step_confidence)

lemma merge_group_ok:
  assumes "group_meds \<noteq> []" and "\<forall>m \<in> set group_meds. 0 \<le> confidence m"
  shows "\<exists>r. merge_group group_meds = Inr [r] \<and>
             (\<exists>m \<in> set group_meds. name r = name m \<and> confidence r = confidence m)"
proof -
  obtain m0 where m0: "m0 \<in> set group_meds" using assms(1) by (cases group_meds) auto
  have "-1 < score m0" using assms(2) m0 score_ge_confidence [of m0] by fastforce
  with m0 have "fst (select_best (None, -1) group_meds) \<noteq> None"
    by (intro select_best_Some) auto
  then obtain b where b: "fst (select_best (None, -1) group_meds) = Some b" by auto
  with select_best_cases [of None "-1" group_meds] have "b \<in> set group_meds" by auto
  then show ?thesis using b assms(1)
    by (auto simp: merge_group_def foldl_backfill_name foldl_backfill_confidence)
qed

lemma merge_groups_ok:
  assumes "\<forall>g \<in> set gs. g \<noteq> [] \<and> (\<forall>m \<in> set g. 0 \<le> confidence m)"
  shows "\<exists>merged. merge_groups gs = Inr merged \<and> length merged = length gs \<and>
           (\<forall>r \<in> set merged. \<exists>g \<in> set gs. \<exists>m \<in> set g.
               name r = name m \<and> confidence r = confidence m)"
  using assms
proof (induction gs)
  case Nil
  then show ?case by simp
next
  case (Cons g gs)
  from Cons.prems have "g \<noteq> []" "\<forall>m \<in> set g. 0 \<le> confidence m" by auto
  from merge_group_ok [OF this] obtain r where
    r: "merge_group g = Inr [r]" "\<exists>m \<in> set g. name r = name m \<and> confidence r = confidence m"
    by blast
  from Cons.IH Cons.prems obtain merged where
    m: "merge_groups gs = Inr merged" "length merged = length gs"
       "\<forall>r \<in> set merged. \<exists>g \<in> set gs. \<exists>m \<in> set g. name r = name m \<and> confidence r = confidence m"
    by auto
  have "merge_groups (g # gs) = Inr (r # merged)" using r(1) m(1) by simp
  moreover have "length (r # merged) = length (g # gs)" using m(2) by simp
  moreover have "\<forall>r' \<in> set (r # merged). \<exists>g' \<in> set (g # gs). \<exists>m \<in> set g'.
      name r' = name m \<and> confidence r' = confidence m"
    using r(2) m(3) by auto
  ultimately show ?case by blast
qed

lemma group_append_length: "length (group_append gs k m) \<le> Suc (length gs)"
  by (induction gs k m rule: group_append.induct) auto

lemma group_append_members:
  "g' \<in> snd ` set (group_append gs k m) \<Longrightarrow>
     g' \<in> snd ` set gs \<or> (\<exists>g \<in> snd ` set gs. g' = g @ [m]) \<or> g' = [m]"
  by (induction gs k m rule: group_append.induct) (auto split: if_splits)

lemma group_step_length: "length (group_step gs m) \<le> Suc (length gs)"
  unfolding group_step_def Let_def
  by (auto simp: group_append_length le_SucI split: option.splits)

lemma group_step_members:
  assumes "\<forall>g \<in> snd ` set gs. g \<noteq> [] \<and> (\<forall>x \<in> set g. P x)"
    and "\<not> invalid_name (py_strip (name m)) \<Longrightarrow> P m"
  shows "\<forall>g \<in> snd ` set (group_step gs m). g \<noteq> [] \<and> (\<forall>x \<in> set g. P x)"
proof
  fix g assume g: "g \<in> snd ` set (group_step gs m)"
  show "g \<noteq> [] \<and> (\<forall>x \<in> set g. P x)"
  proof (cases "invalid_name (py_strip (name m))")
    case True
    then have "group_step gs m = gs" by (simp add: group_step_def)
    with g assms(1) show ?thesis by auto
  next
    case False
    then have "\<exists>k. group_step gs m = group_append gs k m"
      by (cases "find_group_key (map fst gs) (py_lower (py_strip (name m)))")
         (auto simp: group_step_def Let_def)
    then obtain k where "group_step gs m = group_append gs k m" by blast
    with g have "g \<in> snd ` set (group_append gs k m)" by simp
    from group_append_members [OF this] assms(1) assms(2) [OF False] show ?thesis by auto
  qed
qed

lemma foldl_group_step_length:
  "length (foldl group_step gs ms) \<le> length gs + length ms"
proof (induction ms arbitrary: gs)
  case Nil
  then show ?case by simp
next
  case (Cons m ms)
  have "length (foldl group_step (group_step gs m) ms) \<le> length (group_step gs m) + length ms"
    by (rule Cons.IH)
  also have "\<dots> \<le> Suc (length gs) + length ms" using group_step_length [of gs m] by simp
  finally show ?case by simp
qed

lemma foldl_group_step_members:
  assumes "\<forall>g \<in> snd ` set gs. g \<noteq> [] \<and> (\<forall>x \<in> set g. P x)"
    and "\<forall>m \<in> set ms. \<not> invalid_name (py_strip (name m)) \<longrightarrow> P m"
  shows "\<forall>g \<in> snd ` set (foldl group_step gs ms). g \<noteq> [] \<and> (\<forall>x \<in> set g. P x)"
  using assms
proof (induction ms arbitrary: gs)
  case Nil
  then show ?case by simp
next
  case (Cons m ms)
  have "\<forall>g \<in> snd ` set (group_step gs m). g \<noteq> [] \<and> (\<forall>x \<in> set g. P x)"
    using Cons.prems by (intro group_step_members) auto
  from Cons.IH [OF this] Cons.prems(2) show ?case by simp
qed

lemma group_medications_length: "length (group_medications ms) \<le> length ms"
  using foldl_group_step_length [of "[]" ms] by (simp add: group_medications_def)

lemma group_medications_members:
  "\<forall>g \<in> snd ` set (group_medications ms).
      g \<noteq> [] \<and> (\<forall>x \<in> set g. x \<in> set ms \<and> \<not> invalid_name (py_strip (name x)))"
  unfolding group_medications_def
  by (rule foldl_group_step_members) auto

lemma merge_medications_ok:
  assumes "\<forall>m \<in> set ms. 0 \<le> confidence m"
  shows "\<exists>merged. merge_medications ms = Inr merged \<and> length merged \<le> length ms \<and>
           (\<forall>r \<in> set merged. \<not> invalid_name (py_strip (name r)) \<and> 0 \<le> confidence r)"
proof -
  let ?gs = "map snd (group_medications ms)"
  have mem: "\<forall>g \<in> set ?gs. g \<noteq> [] \<and> (\<forall>x \<in> set g. x \<in> set ms \<and> \<not> invalid_name (py_strip (name x)))"
    using group_medications_members [of ms] by simp
  with assms have "\<forall>g \<in> set ?gs. g \<noteq> [] \<and> (\<forall>m \<in> set g. 0 \<le> confidence m)" by blast
  from merge_groups_ok [OF this] obtain merged where
    m: "merge_groups ?gs = Inr merged" "length merged = length ?gs"
       "\<forall>r \<in> set merged. \<exists>g \<in> set ?gs. \<exists>m \<in> set g. name r = name m \<and> confidence r = confidence m"
    by blast
  have "length merged \<le> length ms" using m(2) group_medications_length [of ms] by simp
  moreover have "\<forall>r \<in> set merged. \<not> invalid_name (py_strip (name r)) \<and> 0 \<le> confidence r"
  proof
    fix r assume "r \<in> set merged"
    with m(3) obtain g x where "g \<in> set ?gs" "x \<in> set g" "name r = name x" "confidence r = confidence x"
      by blast
    with mem assms show "\<not> invalid_name (py_strip (name r)) \<and> 0 \<le> confidence r" by auto
  qed
  ultimately show ?thesis using m(1) by (auto simp: merge_medications_def)
qed

lemma is_space_lower_char: "is_space (lower_char c) = is_space c"
  by (cases c) (auto simp: is_space_code is_upper_code)

lemma is_digit_not_space: "is_digit c \<Longrightarrow> \<not> is_space c"
  by (cases c) (auto simp: is_space_code is_digit_code)

lemma py_strip_id:
  assumes "s \<noteq> []" "\<not> is_space (hd s)" "\<not> is_space (last s)"
  shows "py_strip s = s"
proof -
  have "dropWhile is_space s = s" using assms(1,2) by (cases s) auto
  moreover have "dropWhile is_space (rev s) = rev s"
    using assms(1,3) by (cases "rev s") (auto simp: last_rev [symmetric] simp del: last_rev)
  ultimately show ?thesis by (simp add: py_strip_def)
qed

lemma length_py_strip: "length (py_strip s) \<le> length s"
proof -
  have "length (py_strip s) \<le> length (dropWhile is_space s)"
    unfolding py_strip_def using length_dropWhile_le [of is_space "rev (dropWhile is_space s)"] by simp
  also have "\<dots> \<le> length s" by (rule length_dropWhile_le)
  finally show ?thesis .
qed

lemma py_isdigit_strip: "py_isdigit s \<Longrightarrow> py_strip s = s"
proof -
  assume d: "py_isdigit s"
  then have ne: "s \<noteq> []" and all: "\<forall>c \<in> set s. is_digit c"
    by (auto simp: py_isdigit_def list_all_iff)
  then have "is_digit (hd s)" "is_digit (last s)" by auto
  then show ?thesis using ne by (intro py_strip_id) (auto dest: is_digit_not_space)
qed

lemma py_lower_strip:
  assumes "py_lower s = t" "t \<noteq> []" "\<not> is_space (hd t)" "\<not> is_space (last t)"
  shows "py_strip s = s"
proof -
  from assms(1,2) have ne: "s \<noteq> []" by (auto simp: py_lower_def)
  have "hd t = lower_char (hd s)" "last t = lower_char (last s)"
    using assms(1) ne by (auto simp: py_lower_def hd_map last_map)
  with assms(3,4) have "\<not> is_space (hd s)" "\<not> is_space (last s)"
    by (simp_all add: is_space_lower_char)
  with ne show ?thesis by (rule py_strip_id)
qed

lemma valid_name_facts:
  assumes "\<not> invalid_name (py_strip n)"
  shows "n \<noteq> [] \<and> 2 \<le> length n \<and> \<not> py_isdigit n \<and>
         py_lower n \<notin> set [''mg'', ''ml'', ''tablet'', ''cap'', ''tab'', ''unknown medication'']"
proof -
  from assms have len: "2 \<le> length (py_strip n)" and nd: "\<not> py_isdigit (py_strip n)"
    and ns: "py_lower (py_strip n) \<notin> set [''mg'', ''ml'', ''tablet'', ''cap'', ''tab'', ''unknown medication'']"
    by (auto simp: invalid_name_def)
  from len length_py_strip [of n] have l2: "2 \<le> length n" by simp
  then have "n \<noteq> []" by auto
  moreover have "\<not> py_isdigit n" using nd py_isdigit_strip [of n] by auto
  moreover have "py_lower n \<notin> set [''mg'', ''ml'', ''tablet'', ''cap'', ''tab'', ''unknown medication'']"
  proof
    assume a: "py_lower n \<in> set [''mg'', ''ml'', ''tablet'', ''cap'', ''tab'', ''unknown medication'']"
    then have "py_strip n = n"
      by (auto intro!: py_lower_strip [where s = n] simp: is_space_def)
    with a ns show False by simp
  qed
  ultimately show ?thesis using l2 by simp
qed

lemma starts_with_refl: "starts_with s s"
  by (induction s) auto

lemma py_in_refl: "py_in s s"
  by (cases s) (auto simp: starts_with_refl)

lemma names_apart_snoc:
  "names_apart (ks @ [k]) = (names_apart ks \<and> (\<forall>k' \<in> set ks. \<not> py_in k' k \<and> \<not> py_in k k'))"
  by (induction ks) (auto simp: list_all_iff)

lemma find_group_key_None:
  "\<forall>k \<in> set ks. \<not> py_in k n \<and> \<not> py_in n k \<Longrightarrow> find_group_key ks n = None"
proof (induction ks)
  case Nil
  then show ?case by simp
next
  case (Cons k ks)
  then have "\<not> py_in k n" "\<not> py_in n k" by auto
  moreover from this have "k \<noteq> n" using py_in_refl by auto
  ultimately show ?case using Cons by simp
qed

lemma group_append_new: "k \<notin> fst ` set gs \<Longrightarrow> group_append gs k m = gs @ [(k, [m])]"
  by (induction gs k m rule: group_append.induct) auto

lemma foldl_group_step_apart:
  assumes "names_apart (map group_key_of (pre @ ms))"
    and "\<forall>m \<in> set ms. \<not> invalid_name (py_strip (name m))"
  shows "foldl group_step (map (\<lambda>m. (group_key_of m, [m])) pre) ms =
         map (\<lambda>m. (group_key_of m, [m])) (pre @ ms)"
  using assms
proof (induction ms arbitrary: pre)
  case Nil
  then show ?case by simp
next
  case (Cons m ms)
  let ?f = "\<lambda>m. (group_key_of m, [m])"
  from Cons.prems(1) have ap: "names_apart (map group_key_of ((pre @ [m]) @ ms))" by simp
  have "names_apart (map group_key_of (pre @ [m]))"
    using Cons.prems(1)
  proof (induction pre)
    case Nil
    then show ?case by simp
  next
    case (Cons p pre)
    then show ?case by (auto simp: list_all_iff)
  qed
  then have un: "\<forall>k \<in> set (map group_key_of pre). \<not> py_in k (group_key_of m) \<and> \<not> py_in (group_key_of m) k"
    by (simp add: names_apart_snoc)
  then have none: "find_group_key (map fst (map ?f pre)) (group_key_of m) = None"
    by (intro find_group_key_None) (simp add: comp_def)
  have notin: "group_key_of m \<notin> fst ` set (map ?f pre)"
    using un py_in_refl by force
  have valid: "\<not> invalid_name (py_strip (name m))" using Cons.prems(2) by simp
  have "group_step (map ?f pre) m = group_append (map ?f pre) (group_key_of m) m"
    using valid none by (simp add: group_step_def Let_def group_key_of_def)
  also have "\<dots> = map ?f (pre @ [m])" using group_append_new [OF notin] by simp
  finally have step: "group_step (map ?f pre) m = map ?f (pre @ [m])" .
  have "foldl group_step (map ?f pre) (m # ms) = foldl group_step (map ?f (pre @ [m])) ms"
    using step by simp
  also have "\<dots> = map ?f ((pre @ [m]) @ ms)"
    using ap Cons.prems(2) by (intro Cons.IH) auto
  finally show ?case by simp
qed

lemma backfill_step_self: "backfill_step m m = m"
  by (simp add: backfill_step_def)

lemma merge_group_single: "0 \<le> confidence m \<Longrightarrow> merge_group [m] = Inr [m]"
proof -
  assume "0 \<le> confidence m"
  then have "-1 < score m" using score_ge_confidence [of m] by simp
  then show ?thesis by (simp add: merge_group_def backfill_step_self)
qed

lemma merge_groups_singletons:
  "\<forall>m \<in> set ms. 0 \<le> confidence m \<Longrightarrow> merge_groups (map (\<lambda>m. [m]) ms) = Inr ms"
  by (induction ms) (simp_all add: merge_group_single)

lemma merge_medications_apart:
  assumes "names_apart (map group_key_of ms)"
    and "\<forall>m \<in> set ms. \<not> invalid_name (py_strip (name m))"
    and "\<forall>m \<in> set ms. 0 \<le> confidence m"
  shows "merge_medications ms = Inr ms"
proof -
  have "group_medications ms = map (\<lambda>m. (group_key_of m, [m])) ms"
    using foldl_group_step_apart [of "[]" ms] assms(1,2) by (simp add: group_medications_def)
  then have "map snd (group_medications ms) = map (\<lambda>m. [m]) ms" by (simp add: comp_def)
  then show ?thesis using merge_groups_singletons [OF assms(3)] by (simp add: merge_medications_def)
qed

text \<open>
  Claim C5, as stated, fails. From the candidates \<open>Aug\<close>, \<open>Men\<close>, \<open>Augmentin\<close> the merger
  files \<open>Augmentin\<close> under the key \<open>aug\<close> and returns it for that group, as the member of
  highest score, followed by \<open>Men\<close>. Merging that output again files \<open>Men\<close> under the key
  \<open>augmentin\<close>, which contains it, and one record is left.
\<close>

theorem merge_medications_not_idempotent:
  "merge_medications
     [\<lparr>name = ''Aug'', dosage = ''Unknown dosage'', frequency = ''daily'', duration = ''7 days'',
        instructions = ''daily'', confidence = 7 / 10, source = ''pattern_based''\<rparr>,
      \<lparr>name = ''Men'', dosage = ''Unknown dosage'', frequency = ''daily'', duration = ''7 days'',
        instructions = ''daily'', confidence = 7 / 10, source = ''pattern_based''\<rparr>,
      \<lparr>name = ''Augmentin'', dosage = ''625 mg'', frequency = ''daily'', duration = ''7 days'',
        instructions = ''daily'', confidence = 7 / 10, source = ''pattern_based''\<rparr>] =
   Inr [\<lparr>name = ''Augmentin'', dosage = ''625 mg'', frequency = ''daily'', duration = ''7 days'',
        instructions = ''daily'', confidence = 7 / 10, source = ''pattern_based''\<rparr>,
        \<lparr>name = ''Men'', dosage = ''Unknown dosage'', frequency = ''daily'', duration = ''7 days'',
        instructions = ''daily'', confidence = 7 / 10, source = ''pattern_based''\<rparr>] \<and>
   merge_medications
     [\<lparr>name = ''Augmentin'', dosage = ''625 mg'', frequency = ''daily'', duration = ''7 days'',
        instructions = ''daily'', confidence = 7 / 10, source = ''pattern_based''\<rparr>,
      \<lparr>name = ''Men'', dosage = ''Unknown dosage'', frequency = ''daily'', duration = ''7 days'',
        instructions = ''daily'', confidence = 7 / 10, source = ''pattern_based''\<rparr>] =
   Inr [\<lparr>name = ''Augmentin'', dosage = ''625 mg'', frequency = ''daily'', duration = ''7 days'',
        instructions = ''daily'', confidence = 7 / 10, source = ''pattern_based''\<rparr>]"
  by code_simp

text \<open>
  Claim C5, amended. Applying the merger to a list it has returned gives the same list
  again whenever the trimmed lower-case names of that list are pairwise not contained in
  one another. (The candidates carry confidences that are not negative, as the data model
  has them.)
\<close>

theorem merge_medications_idempotent_apart:
  assumes "\<forall>m \<in> set medications. 0 \<le> confidence m"
    and "merge_medications medications = Inr merged"
    and "names_apart (map group_key_of merged)"
  shows "merge_medications merged = Inr merged"
proof -
  from merge_medications_ok [OF assms(1)] assms(2)
  have "\<forall>r \<in> set merged. \<not> invalid_name (py_strip (name r)) \<and> 0 \<le> confidence r" by auto
  then show ?thesis using assms(3) by (intro merge_medications_apart) auto
qed

theorem merge_medications_idempotent_apart_witness:
  "list_all (\<lambda>m. 0 \<le> confidence m)
     [\<lparr>name = ''Aug'', dosage = ''Unknown dosage'', frequency = ''daily'', duration = ''7 days'',
        instructions = ''daily'', confidence = 7 / 10, source = ''pattern_based''\<rparr>,
      \<lparr>name = ''Augmentin'', dosage = ''625 mg'', frequency = ''daily'', duration = ''7 days'',
        instructions = ''daily'', confidence = 7 / 10, source = ''pattern_based''\<rparr>,
      \<lparr>name = ''Aspirin'', dosage = ''75 mg'', frequency = ''daily'', duration = ''7 days'',
        instructions = ''daily'', confidence = 7 / 10, source = ''pattern_based''\<rparr>] \<and>
   merge_medications
     [\<lparr>name = ''Aug'', dosage = ''Unknown dosage'', frequency = ''daily'', duration = ''7 days'',
        instructions = ''daily'', confidence = 7 / 10, source = ''pattern_based''\<rparr>,
      \<lparr>name = ''Augmentin'', dosage = ''625 mg'', frequency = ''daily'', duration = ''7 days'',
        instructions = ''daily'', confidence = 7 / 10, source = ''pattern_based''\<rparr>,
      \<lparr>name = ''Aspirin'', dosage = ''75 mg'', frequency = ''daily'', duration = ''7 days'',
        instructions = ''daily'', confidence = 7 / 10, source = ''pattern_based''\<rparr>] =
   Inr [\<lparr>name = ''Augmentin'', dosage = ''625 mg'', frequency = ''daily'', duration = ''7 days'',
        instructions = ''daily'', confidence = 7 / 10, source = ''pattern_based''\<rparr>,
        \<lparr>name = ''Aspirin'', dosage = ''75 mg'', frequency = ''daily'', duration = ''7 days'',
        instructions = ''daily'', confidence = 7 / 10, source = ''pattern_based''\<rparr>] \<and>
   names_apart (map group_key_of
     [\<lparr>name = ''Augmentin'', dosage = ''625 mg'', frequency = ''daily'', duration = ''7 days'',
        instructions = ''daily'', confidence = 7 / 10, source = ''pattern_based''\<rparr>,
      \<lparr>name = ''Aspirin'', dosage = ''75 mg'', frequency = ''daily'', duration = ''7 days'',
        instructions = ''daily'', confidence = 7 / 10, source = ''pattern_based''\<rparr>]) \<and>
   merge_medications
     [\<lparr>name = ''Augmentin'', dosage = ''625 mg'', frequency = ''daily'', duration = ''7 days'',
        instructions = ''daily'', confidence = 7 / 10, source = ''pattern_based''\<rparr>,
      \<lparr>name = ''Aspirin'', dosage = ''75 mg'', frequency = ''daily'', duration = ''7 days'',
        instructions = ''daily'', confidence = 7 / 10, source = ''pattern_based''\<rparr>] =
   Inr [\<lparr>name = ''Augmentin'', dosage = ''625 mg'', frequency = ''daily'', duration = ''7 days'',
        instructions = ''daily'', confidence = 7 / 10, source = ''pattern_based''\<rparr>,
        \<lparr>name = ''Aspirin'', dosage = ''75 mg'', frequency = ''daily'', duration = ''7 days'',
        instructions = ''daily'', confidence = 7 / 10, source = ''pattern_based''\<rparr>]"
proof -
  let ?ms = "[\<lparr>name = ''Aug'', dosage = ''Unknown dosage'', frequency = ''daily'', duration = ''7 days'',
        instructions = ''daily'', confidence = 7 / 10, source = ''pattern_based''\<rparr>,
      \<lparr>name = ''Augmentin'', dosage = ''625 mg'', frequency = ''daily'', duration = ''7 days'',
        instructions = ''daily'', confidence = 7 / 10, source = ''pattern_based''\<rparr>,
      \<lparr>name = ''Aspirin'', dosage = ''75 mg'', frequency = ''daily'', duration = ''7 days'',
        instructions = ''daily'', confidence = 7 / 10, source = ''pattern_based''\<rparr>]"
  let ?rs = "[\<lparr>name = ''Augmentin'', dosage = ''625 mg'', frequency = ''daily'', duration = ''7 days'',
        instructions = ''daily'', confidence = 7 / 10, source = ''pattern_based''\<rparr>,
      \<lparr>name = ''Aspirin'', dosage = ''75 mg'', frequency = ''daily'', duration = ''7 days'',
        instructions = ''daily'', confidence = 7 / 10, source = ''pattern_based''\<rparr>]"
  have h1: "\<forall>m \<in> set ?ms. 0 \<le> confidence m" by simp
  have h2: "merge_medications ?ms = Inr ?rs" by code_simp
  have h3: "names_apart (map group_key_of ?rs)" by code_simp
  from merge_medications_idempotent_apart [OF h1 h2 h3] h1 h2 h3 show ?thesis
    by (simp only: list_all_iff simp_thms)
qed

section \<open>The text normalizer\<close>









lemma set_sub_spaces: "c \<in> set (sub_spaces s) \<Longrightarrow> c = CHR '' '' \<or> (c \<in> set s \<and> \<not> is_space c)"
  by (induction s rule: sub_spaces.induct) (auto split: if_splits)












lemma py_strip_subset: "set (py_strip s) \<subseteq> set s"
proof -
  have "set (py_strip s) \<subseteq> set (dropWhile is_space s)"
    unfolding py_strip_def using set_dropWhileD by fastforce
  also have "\<dots> \<subseteq> set s" using set_dropWhileD by fastforce
  finally show ?thesis .
qed


text \<open>
  The cleaner of the OCR stage is a different function. It keeps the digits too, except
  for a zero that stands alone, as the one of a timing code does.
\<close>

lemma ocr_clean_text_rewrites_lone_zero:
  "ocr_clean_text ''Tab. Augmentin 625mg 1-0-1'' = ''Tab. Augmentin 625mg 1-O-1''"
  by code_simp




section \<open>The pattern extractor and the pipeline\<close>

lemma starts_with_iff: "starts_with s p \<longleftrightarrow> (\<exists>q. s = p @ q)"
  by (induction s p rule: starts_with.induct) auto

lemma py_in_iff: "py_in sub s \<longleftrightarrow> (\<exists>pre post. s = pre @ sub @ post)"
proof (induction s)
  case Nil
  then show ?case by auto
next
  case (Cons c cs)
  show ?case
  proof
    assume "py_in sub (c # cs)"
    then consider "starts_with (c # cs) sub" | "py_in sub cs" by auto
    then show "\<exists>pre post. c # cs = pre @ sub @ post"
    proof cases
      case 1
      then obtain q where "c # cs = sub @ q" using starts_with_iff by blast
      then have "c # cs = [] @ sub @ q" by simp
      then show ?thesis by blast
    next
      case 2
      with Cons.IH obtain pre post where "cs = pre @ sub @ post" by blast
      then have "c # cs = (c # pre) @ sub @ post" by simp
      then show ?thesis by blast
    qed
  next
    assume "\<exists>pre post. c # cs = pre @ sub @ post"
    then obtain pre post where e: "c # cs = pre @ sub @ post" by blast
    show "py_in sub (c # cs)"
    proof (cases pre)
      case Nil
      with e have "starts_with (c # cs) sub" using starts_with_iff by auto
      then show ?thesis by simp
    next
      case (Cons d pre')
      with e have "cs = pre' @ sub @ post" by simp
      with Cons.IH have "py_in sub cs" by blast
      then show ?thesis by simp
    qed
  qed
qed

lemma py_in_slice: "py_in (slice text a b) text"
proof -
  have "text = take a text @ drop a text" by simp
  also have "drop a text = take (b - a) (drop a text) @ drop (b - a) (drop a text)"
    by (simp only: append_take_drop_id)
  finally have "text = take a text @ take (b - a) (drop a text) @ drop (b - a) (drop a text)" .
  then show ?thesis unfolding py_in_iff slice_def by blast
qed

lemma py_in_lower: "py_in x t \<Longrightarrow> py_in (py_lower x) (py_lower t)"
proof -
  assume "py_in x t"
  then obtain pre post where "t = pre @ x @ post" using py_in_iff by blast
  then have "py_lower t = py_lower pre @ py_lower x @ py_lower post" by (simp add: py_lower_def)
  then show ?thesis using py_in_iff by blast
qed

lemma find_from_None: "find_from s sub pos = None \<longleftrightarrow> \<not> py_in sub s"
  by (induction s arbitrary: pos) auto

lemma py_find_Some: "py_in sub s \<Longrightarrow> \<exists>i. py_find s sub = Some i"
  using find_from_None [of s sub 0] by (cases "py_find s sub") (auto simp: py_find_def)

lemma extract_frequency_found:
  assumes "py_in (py_lower mention) (py_lower text)"
  shows "\<exists>f. extract_frequency_near_medication text mention = Inr f"
proof -
  from py_find_Some [OF assms] obtain i where "py_find (py_lower text) (py_lower mention) = Some i"
    by blast
  then show ?thesis by (simp add: extract_frequency_near_medication_def Let_def)
qed

lemma extract_dosage_found:
  assumes "py_in (py_lower mention) (py_lower text)"
  shows "\<exists>d. extract_dosage_near_medication text mention = Inr d"
proof -
  from py_find_Some [OF assms] obtain i where "py_find (py_lower text) (py_lower mention) = Some i"
    by blast
  then show ?thesis by (simp add: extract_dosage_near_medication_def Let_def)
qed





lemma re_group_piece: "piece_of text (re_group text m k)"
  by (auto simp: piece_of_def re_group_def split: option.splits)

lemma re_groups_piece: "g \<in> set (re_groups r text m) \<Longrightarrow> piece_of text g"
  by (auto simp: re_groups_def re_group_piece)

lemma length_re_groups: "length (re_groups r text m) = ngroups r"
  by (simp add: re_groups_def)

lemma patterns_ngroups:
  "list_all (\<lambda>p. ngroups p = 1 \<or> ngroups p = 3 \<or> ngroups p = 4) extraction_patterns"
  by code_simp

lemma name_and_dosage_ok:
  assumes "length groups = 1 \<or> length groups = 3 \<or> length groups = 4"
  shows "\<exists>g d. name_and_dosage text m groups = Inr (g, d) \<and> g \<in> set groups"
proof -
  from assms consider "length groups = 1" | "length groups = 3" | "length groups = 4" by blast
  then show ?thesis
  proof cases
    case 1
    then obtain g where "groups = [g]" by (cases groups) auto
    then show ?thesis by (simp add: name_and_dosage_def)
  next
    case 2
    then have "groups ! 0 \<in> set groups" by (intro nth_mem) simp
    with 2 show ?thesis by (simp add: name_and_dosage_def)
  next
    case 3
    then have "groups ! 1 \<in> set groups" by (intro nth_mem) simp
    with 3 show ?thesis by (simp add: name_and_dosage_def)
  qed
qed

lemma fold_err_invariant:
  assumes "P s" and "\<And>s x. P s \<Longrightarrow> x \<in> set xs \<Longrightarrow> \<exists>s'. f s x = Inr s' \<and> P s'"
  shows "\<exists>s'. fold_err f xs s = Inr s' \<and> P s'"
  using assms
proof (induction xs arbitrary: s)
  case Nil
  then show ?case by simp
next
  case (Cons x xs)
  from Cons.prems(2) [OF Cons.prems(1), of x] obtain s1 where s1: "f s x = Inr s1" "P s1" by auto
  have "\<exists>s'. fold_err f xs s1 = Inr s' \<and> P s'"
    using s1(2) Cons.prems(2) by (intro Cons.IH) auto
  with s1(1) show ?case by simp
qed

lemma pattern_step_ok:
  assumes "ngroups pattern = 1 \<or> ngroups pattern = 3 \<or> ngroups pattern = 4"
    and "\<forall>med \<in> set (fst st). pattern_candidate text med"
  shows "\<exists>st'. pattern_step text pattern st m = Inr st' \<and>
               (\<forall>med \<in> set (fst st'). pattern_candidate text med)"
proof -
  obtain medications found where st: "st = (medications, found)" by (cases st)
  let ?groups = "re_groups pattern text m"
  from assms(1) have "length ?groups = 1 \<or> length ?groups = 3 \<or> length ?groups = 4"
    by (simp add: length_re_groups)
  from name_and_dosage_ok [OF this] obtain g d where
    nd: "name_and_dosage text m ?groups = Inr (g, d)" and g: "g \<in> set ?groups" by blast
  show ?thesis
  proof (cases g)
    case None
    with nd st assms(2) show ?thesis by (simp add: pattern_step_def)
  next
    case (Some med_name)
    from re_groups_piece [OF g] Some obtain a b where ab: "med_name = slice text a b"
      by (auto simp: piece_of_def)
    have "py_in (py_lower med_name) (py_lower text)"
      unfolding ab by (intro py_in_lower py_in_slice)
    from extract_frequency_found [OF this] obtain f where
      f: "extract_frequency_near_medication text med_name = Inr f" by blast
    show ?thesis
    proof (cases "med_name = [] \<or> length (py_strip med_name) < 3 \<or> py_isdigit (py_strip med_name)
                  \<or> py_lower (py_strip med_name) \<in> set found")
      case True
      then have "pattern_step text pattern st m = Inr st"
        using nd Some st by (auto simp: pattern_step_def)
      with assms(2) show ?thesis by simp
    next
      case False
      let ?med = "\<lparr>name = py_title med_name, dosage = d, frequency = f,
                    duration = extract_duration_near_medication text med_name,
                    instructions = parse_timing_instructions f,
                    confidence = 7 / 10, source = ''pattern_based''\<rparr>"
      from False have "pattern_step text pattern st m =
          Inr (medications @ [?med], found @ [py_lower (py_strip med_name)])"
        using nd Some st f by (simp add: pattern_step_def)
      moreover have "pattern_candidate text ?med"
        using ab by (auto simp: pattern_candidate_def)
      ultimately show ?thesis using assms(2) st by auto
    qed
  qed
qed

lemma pattern_based_extraction_ok:
  "\<exists>medications. pattern_based_extraction text = Inr medications \<and>
                  (\<forall>med \<in> set medications. pattern_candidate text med)"
proof -
  let ?P = "\<lambda>st :: extraction. \<forall>med \<in> set (fst st). pattern_candidate text med"
  have "\<exists>st'. fold_err (\<lambda>st pattern. fold_err (pattern_step text pattern) (re_finditer True pattern text) st)
            extraction_patterns ([], []) = Inr st' \<and> ?P st'"
  proof (rule fold_err_invariant [where P = ?P])
    show "?P ([], [])" by simp
  next
    fix st :: extraction and pattern
    assume st: "?P st" and p: "pattern \<in> set extraction_patterns"
    from p patterns_ngroups have n: "ngroups pattern = 1 \<or> ngroups pattern = 3 \<or> ngroups pattern = 4"
      by (simp add: list_all_iff)
    show "\<exists>st'. fold_err (pattern_step text pattern) (re_finditer True pattern text) st = Inr st' \<and> ?P st'"
    proof (rule fold_err_invariant [where P = ?P])
      show "?P st" by (rule st)
    next
      fix s :: extraction and m
      assume "?P s"
      with n show "\<exists>s'. pattern_step text pattern s m = Inr s' \<and> ?P s'"
        by (rule pattern_step_ok)
    qed
  qed
  then obtain meds found where
    "fold_err (\<lambda>st pattern. fold_err (pattern_step text pattern) (re_finditer True pattern text) st)
       extraction_patterns ([], []) = Inr (meds, found)" "?P (meds, found)"
    by (metis prod.collapse)
  then show ?thesis by (simp add: pattern_based_extraction_def)
qed


lemma first_variation_Some:
  "first_variation vs s = Some v \<Longrightarrow> v \<in> set vs \<and> py_in v s"
  by (induction vs) (auto split: if_splits)

lemma database_lower_case:
  "list_all (\<lambda>entry. list_all (\<lambda>v. py_lower v = v) (snd entry)) medication_database"
  by code_simp

lemma rule_step_ok:
  assumes "entry \<in> set medication_database"
    and "\<forall>med \<in> set (fst st). confidence med = 8 / 10"
  shows "\<exists>st'. rule_step text st entry = Inr st' \<and> (\<forall>med \<in> set (fst st'). confidence med = 8 / 10)"
proof -
  obtain medications found where st: "st = (medications, found)" by (cases st)
  obtain med_name variations where e: "entry = (med_name, variations)" by (cases entry)
  show ?thesis
  proof (cases "med_name \<in> set found")
    case True
    then show ?thesis using assms(2) st e by (simp add: rule_step_def)
  next
    case nf: False
    show ?thesis
    proof (cases "first_variation variations (py_lower text)")
      case None
      then show ?thesis using assms(2) st e nf by (simp add: rule_step_def)
    next
      case (Some v)
      from first_variation_Some [OF Some] have v: "v \<in> set variations" "py_in v (py_lower text)"
        by simp_all
      from assms(1) e v(1) database_lower_case have "py_lower v = v"
        by (force simp: list_all_iff)
      with v(2) have "py_in (py_lower v) (py_lower text)" by simp
      from extract_dosage_found [OF this] extract_frequency_found [OF this] obtain d f where
        "extract_dosage_near_medication text v = Inr d"
        "extract_frequency_near_medication text v = Inr f" by blast
      then show ?thesis using assms(2) st e nf Some by (simp add: rule_step_def)
    qed
  qed
qed

lemma rule_based_extraction_ok:
  "\<exists>medications. rule_based_extraction text = Inr medications \<and>
                  (\<forall>med \<in> set medications. confidence med = 8 / 10)"
proof -
  let ?P = "\<lambda>st :: extraction. \<forall>med \<in> set (fst st). confidence med = 8 / 10"
  have "\<exists>st'. fold_err (rule_step text) medication_database ([], []) = Inr st' \<and> ?P st'"
  proof (rule fold_err_invariant [where P = ?P])
    show "?P ([], [])" by simp
  next
    fix s :: extraction and x
    assume "?P s" "x \<in> set medication_database"
    then show "\<exists>s'. rule_step text s x = Inr s' \<and> ?P s'" by (intro rule_step_ok)
  qed
  then obtain meds found where
    "fold_err (rule_step text) medication_database ([], []) = Inr (meds, found)" "?P (meds, found)"
    by (metis prod.collapse)
  then show ?thesis by (simp add: rule_based_extraction_def)
qed

lemma extract_medications_ok:
  "\<exists>records. extract_medications text = Inr records \<and>
              (\<forall>r \<in> set records. \<not> invalid_name (py_strip (name r)))"
proof -
  let ?t = "clean_text text"
  from rule_based_extraction_ok [of ?t] obtain rb where
    rb: "rule_based_extraction ?t = Inr rb" "\<forall>med \<in> set rb. confidence med = 8 / 10" by blast
  from pattern_based_extraction_ok [of ?t] obtain pb where
    pb: "pattern_based_extraction ?t = Inr pb" "\<forall>med \<in> set pb. pattern_candidate ?t med" by blast
  have "\<forall>m \<in> set (rb @ pb). 0 \<le> confidence m"
    using rb(2) pb(2) by (auto simp: pattern_candidate_def)
  from merge_medications_ok [OF this] obtain merged where
    "merge_medications (rb @ pb) = Inr merged"
    "\<forall>r \<in> set merged. \<not> invalid_name (py_strip (name r)) \<and> 0 \<le> confidence r" by blast
  then show ?thesis using rb(1) pb(1) by (auto simp: extract_medications_def Let_def)
qed




text \<open>
  Claim C10. For candidates whose confidence is not negative the merger returns, with at
  most as many records as candidates, and the name of every record is non-empty, at least
  two characters long, not purely numeric and, in lower case, none of the stop words. The
  pipeline returns for every ASCII text, and what it returns is the merger's result, so
  the names of its records pass the same checks.
\<close>

theorem merge_medications_names_valid:
  assumes "\<forall>m \<in> set medications. 0 \<le> confidence m" and "ascii_text text"
  shows "(\<exists>merged. merge_medications medications = Inr merged \<and>
            length merged \<le> length medications \<and>
            (\<forall>r \<in> set merged.
               name r \<noteq> [] \<and> 2 \<le> length (name r) \<and> \<not> py_isdigit (name r) \<and>
               py_lower (name r) \<notin> set [''mg'', ''ml'', ''tablet'', ''cap'', ''tab'', ''unknown medication''])) \<and>
         (\<exists>records. extract_medications text = Inr records \<and>
            (\<forall>r \<in> set records.
               name r \<noteq> [] \<and> 2 \<le> length (name r) \<and> \<not> py_isdigit (name r) \<and>
               py_lower (name r) \<notin> set [''mg'', ''ml'', ''tablet'', ''cap'', ''tab'', ''unknown medication'']))"
proof -
  from merge_medications_ok [OF assms(1)] obtain merged where
    m: "merge_medications medications = Inr merged" "length merged \<le> length medications"
       "\<forall>r \<in> set merged. \<not> invalid_name (py_strip (name r)) \<and> 0 \<le> confidence r"
    by blast
  from m(3) have "\<forall>r \<in> set merged.
      name r \<noteq> [] \<and> 2 \<le> length (name r) \<and> \<not> py_isdigit (name r) \<and>
      py_lower (name r) \<notin> set [''mg'', ''ml'', ''tablet'', ''cap'', ''tab'', ''unknown medication'']"
    using valid_name_facts by blast
  with m(1,2) have first: "\<exists>merged. merge_medications medications = Inr merged \<and>
            length merged \<le> length medications \<and>
            (\<forall>r \<in> set merged.
               name r \<noteq> [] \<and> 2 \<le> length (name r) \<and> \<not> py_isdigit (name r) \<and>
               py_lower (name r) \<notin> set [''mg'', ''ml'', ''tablet'', ''cap'', ''tab'', ''unknown medication''])" by blast
  from extract_medications_ok [of "text"] obtain records where
    r: "extract_medications text = Inr records"
       "\<forall>r \<in> set records. \<not> invalid_name (py_strip (name r))" by blast
  from r(2) have "\<forall>r \<in> set records.
      name r \<noteq> [] \<and> 2 \<le> length (name r) \<and> \<not> py_isdigit (name r) \<and>
      py_lower (name r) \<notin> set [''mg'', ''ml'', ''tablet'', ''cap'', ''tab'', ''unknown medication'']"
    using valid_name_facts by blast
  with r(1) have "\<exists>records. extract_medications text = Inr records \<and>
            (\<forall>r \<in> set records.
               name r \<noteq> [] \<and> 2 \<le> length (name r) \<and> \<not> py_isdigit (name r) \<and>
               py_lower (name r) \<notin> set [''mg'', ''ml'', ''tablet'', ''cap'', ''tab'', ''unknown medication''])" by blast
  with first show ?thesis by (rule conjI)
qed

theorem merge_medications_names_valid_witness:
  "list_all (\<lambda>m. 0 \<le> confidence m)
     [\<lparr>name = ''mg'', dosage = ''5 mg'', frequency = ''daily'', duration = ''7 days'',
        instructions = ''daily'', confidence = 7 / 10, source = ''pattern_based''\<rparr>,
      \<lparr>name = ''625'', dosage = ''625 mg'', frequency = ''daily'', duration = ''7 days'',
        instructions = ''daily'', confidence = 7 / 10, source = ''pattern_based''\<rparr>,
      \<lparr>name = ''Unknown Medication'', dosage = ''5 mg'', frequency = ''daily'', duration = ''7 days'',
        instructions = ''daily'', confidence = 7 / 10, source = ''pattern_based''\<rparr>,
      \<lparr>name = ''Aspirin'', dosage = ''75 mg'', frequency = ''daily'', duration = ''7 days'',
        instructions = ''daily'', confidence = 7 / 10, source = ''pattern_based''\<rparr>] \<and>
   merge_medications
     [\<lparr>name = ''mg'', dosage = ''5 mg'', frequency = ''daily'', duration = ''7 days'',
        instructions = ''daily'', confidence = 7 / 10, source = ''pattern_based''\<rparr>,
      \<lparr>name = ''625'', dosage = ''625 mg'', frequency = ''daily'', duration = ''7 days'',
        instructions = ''daily'', confidence = 7 / 10, source = ''pattern_based''\<rparr>,
      \<lparr>name = ''Unknown Medication'', dosage = ''5 mg'', frequency = ''daily'', duration = ''7 days'',
        instructions = ''daily'', confidence = 7 / 10, source = ''pattern_based''\<rparr>,
      \<lparr>name = ''Aspirin'', dosage = ''75 mg'', frequency = ''daily'', duration = ''7 days'',
        instructions = ''daily'', confidence = 7 / 10, source = ''pattern_based''\<rparr>] =
   Inr [\<lparr>name = ''Aspirin'', dosage = ''75 mg'', frequency = ''daily'', duration = ''7 days'',
        instructions = ''daily'', confidence = 7 / 10, source = ''pattern_based''\<rparr>] \<and>
   list_all (\<lambda>r. name r \<noteq> [] \<and> 2 \<le> length (name r) \<and> \<not> py_isdigit (name r) \<and>
       py_lower (name r) \<notin> set [''mg'', ''ml'', ''tablet'', ''cap'', ''tab'', ''unknown medication''])
     [\<lparr>name = ''Aspirin'', dosage = ''75 mg'', frequency = ''daily'', duration = ''7 days'',
        instructions = ''daily'', confidence = 7 / 10, source = ''pattern_based''\<rparr>] \<and>
   ascii_text ''Tab. PanD 40mg 1-0-0 x 7 days'' \<and>
   extract_medications ''Tab. PanD 40mg 1-0-0 x 7 days'' =
   Inr [\<lparr>name = ''Pand'', dosage = ''40 mg'', frequency = ''once daily (morning)'',
        duration = ''7 days'', instructions = ''Take 1 dose in the morning'',
        confidence = 8 / 10, source = ''rule_based''\<rparr>] \<and>
   list_all (\<lambda>r. name r \<noteq> [] \<and> 2 \<le> length (name r) \<and> \<not> py_isdigit (name r) \<and>
       py_lower (name r) \<notin> set [''mg'', ''ml'', ''tablet'', ''cap'', ''tab'', ''unknown medication''])
     [\<lparr>name = ''Pand'', dosage = ''40 mg'', frequency = ''once daily (morning)'',
        duration = ''7 days'', instructions = ''Take 1 dose in the morning'',
        confidence = 8 / 10, source = ''rule_based''\<rparr>]"
proof -
  let ?ms = "[\<lparr>name = ''mg'', dosage = ''5 mg'', frequency = ''daily'', duration = ''7 days'',
        instructions = ''daily'', confidence = 7 / 10, source = ''pattern_based''\<rparr>,
      \<lparr>name = ''625'', dosage = ''625 mg'', frequency = ''daily'', duration = ''7 days'',
        instructions = ''daily'', confidence = 7 / 10, source = ''pattern_based''\<rparr>,
      \<lparr>name = ''Unknown Medication'', dosage = ''5 mg'', frequency = ''daily'', duration = ''7 days'',
        instructions = ''daily'', confidence = 7 / 10, source = ''pattern_based''\<rparr>,
      \<lparr>name = ''Aspirin'', dosage = ''75 mg'', frequency = ''daily'', duration = ''7 days'',
        instructions = ''daily'', confidence = 7 / 10, source = ''pattern_based''\<rparr>]"
  let ?rs = "[\<lparr>name = ''Aspirin'', dosage = ''75 mg'', frequency = ''daily'', duration = ''7 days'',
        instructions = ''daily'', confidence = 7 / 10, source = ''pattern_based''\<rparr>]"
  let ?text = "''Tab. PanD 40mg 1-0-0 x 7 days''"
  let ?ps = "[\<lparr>name = ''Pand'', dosage = ''40 mg'', frequency = ''once daily (morning)'',
        duration = ''7 days'', instructions = ''Take 1 dose in the morning'',
        confidence = 8 / 10, source = ''rule_based''\<rparr>]"
  let ?ok = "\<lambda>r. name r \<noteq> [] \<and> 2 \<le> length (name r) \<and> \<not> py_isdigit (name r) \<and>
       py_lower (name r) \<notin> set [''mg'', ''ml'', ''tablet'', ''cap'', ''tab'', ''unknown medication'']"
  have h: "\<forall>m \<in> set ?ms. 0 \<le> confidence m" by simp
  have a: "ascii_text ?text" by (simp add: ascii_text_def)
  from merge_medications_names_valid [OF h a] obtain merged records where
    m: "merge_medications ?ms = Inr merged" "\<forall>r \<in> set merged. ?ok r" and
    r: "extract_medications ?text = Inr records" "\<forall>r \<in> set records. ?ok r"
    by blast
  have e1: "merge_medications ?ms = Inr ?rs" by code_simp
  have e2: "extract_medications ?text = Inr ?ps" by code_simp
  from m(1) e1 have "merged = ?rs" by simp
  with m(2) have v1: "list_all ?ok ?rs" by (simp only: list_all_iff)
  from r(1) e2 have "records = ?ps" by simp
  with r(2) have v2: "list_all ?ok ?ps" by (simp only: list_all_iff)
  have h': "list_all (\<lambda>m. 0 \<le> confidence m) ?ms" by simp
  from h' e1 v1 a e2 v2 show ?thesis by (intro conjI)
qed

section \<open>The pipeline on the sample prescription\<close>

text \<open>
  Claim C1. On the text \<^verbatim>\<open>Tab. Augmentin 625mg 1-0-1 x 5 days\<close> the pipeline returns one
  record, with name \<open>Augmentin\<close>, dosage \<open>625 mg\<close>, frequency
  \<open>twice daily (morning & night)\<close> and duration \<open>5 days\<close>. Both strategies find the
  medication; the merger keeps the candidate of the lexicon, which has the higher
  confidence.
\<close>

theorem extract_medications_augmentin:
  "extract_medications ''Tab. Augmentin 625mg 1-0-1 x 5 days'' =
     Inr [\<lparr>name = ''Augmentin'', dosage = ''625 mg'',
           frequency = ''twice daily (morning & night)'', duration = ''5 days'',
           instructions = ''Take 1 dose in the morning and 1 dose at night'',
           confidence = 8 / 10, source = ''rule_based''\<rparr>]"
  by code_simp

section \<open>The sub-extractors when the mention is not in the text\<close>

text \<open>
  Claim C8. For a mention that the exact search does not find, the duration extractor
  returns its default at once, with no fuzzy search: the misspelt \<open>Augmentn\<close> is not
  looked for, and \<open>5 days\<close> is not read. The dosage and the frequency extractor enter their
  fall-back loop, whose call of the undefined \<^verbatim>\<open>fuzzy_match\<close> raises on the first word; they
  return their defaults only for a text without words.
\<close>

theorem sub_extractors_mention_not_found:
  "extract_duration_near_medication ''Augmentn 625mg x 5 days'' ''augmentin'' = ''7 days'' \<and>
   extract_dosage_near_medication ''Augmentn 625mg x 5 days'' ''augmentin'' = Inl AttributeError \<and>
   extract_frequency_near_medication ''Augmentn 625mg x 5 days'' ''augmentin'' = Inl AttributeError \<and>
   extract_dosage_near_medication ''   '' ''augmentin'' = Inr ''Unknown dosage'' \<and>
   extract_frequency_near_medication ''   '' ''augmentin'' = Inr ''daily''"
  by code_simp

section \<open>Extraction from a text without letters\<close>

declare rmatch.simps(8) [simp del]

declare finditer_from.simps [simp del]

lemma lower_char_alpha: "is_alpha (lower_char c) = is_alpha c"
  by (cases c) (auto simp: is_alpha_def is_upper_code is_lower_code)

lemma lower_char_id: "\<not> is_alpha c \<Longrightarrow> lower_char c = c"
  by (cases c) (auto simp: is_alpha_def is_upper_code is_lower_code)

lemma upper_char_id: "\<not> is_alpha c \<Longrightarrow> upper_char c = c"
  by (cases c) (auto simp: is_alpha_def is_upper_code is_lower_code)

lemma char_eq_alpha: "char_eq ic l c \<Longrightarrow> is_alpha l \<Longrightarrow> is_alpha c"
  unfolding char_eq_def using lower_char_alpha by metis

lemma class_item_letter: "letter_item i \<Longrightarrow> class_item i c \<Longrightarrow> is_alpha c"
  by (cases i) (auto simp: is_alpha_def list_all_iff)

lemma class_match_letter:
  assumes "list_all letter_item items" "\<not> is_alpha c"
  shows "\<not> class_match ic items c"
proof -
  have "\<not> class_item i c" if "i \<in> set items" for i
    using that assms class_item_letter by (auto simp: list_all_iff)
  then show ?thesis
    using assms(2) by (auto simp: class_match_def list_ex_iff lower_char_id upper_char_id)
qed

lemma lit_match_letterless:
  "list_ex is_alpha s \<Longrightarrow> letterless (rest_of st) \<Longrightarrow> lit_match ic s st = []"
proof (induction ic s st rule: lit_match.induct)
  case (1 ic st)
  then show ?case by simp
next
  case (2 ic l ls caps prev pos)
  then show ?case by simp
next
  case (3 ic l ls caps prev c cs pos)
  from "3.prems"(2) have nc: "\<not> is_alpha c" and rest: "letterless cs" by (auto simp: letterless_def)
  show ?case
  proof (cases "char_eq ic l c")
    case False
    then show ?thesis by simp
  next
    case True
    with nc have "\<not> is_alpha l" using char_eq_alpha by blast
    with "3.prems"(1) have "list_ex is_alpha ls" by simp
    with "3.IH" True rest show ?thesis by simp
  qed
qed

lemma lit_match_rest: "st' \<in> set (lit_match ic s st) \<Longrightarrow> set (rest_of st') \<subseteq> set (rest_of st)"
  by (induction ic s st rule: lit_match.induct) (auto split: if_splits)

lemma rmatch_rest: "st' \<in> set (rmatch ic r st) \<Longrightarrow> set (rest_of st') \<subseteq> set (rest_of st)"
proof (induction ic r st arbitrary: st' rule: rmatch.induct)
  case (1 ic st)
  then show ?case by simp
next
  case (2 ic s st)
  then show ?case using lit_match_rest by simp
next
  case (3 ic items caps prev pos)
  then show ?case by simp
next
  case (4 ic items caps prev c cs pos)
  then show ?case by (auto split: if_splits)
next
  case (5 ic caps prev rest pos)
  then show ?case by (auto split: if_splits)
next
  case (6 ic a b st)
  from "6.prems" obtain m where m: "m \<in> set (rmatch ic a st)" "st' \<in> set (rmatch ic b m)" by auto
  from "6.IH"(1) [OF m(1)] "6.IH"(2) [OF m(1) m(2)] show ?case by blast
next
  case (7 ic a b st)
  from "7.prems" have "st' \<in> set (rmatch ic a st) \<or> st' \<in> set (rmatch ic b st)" by simp
  then show ?case using "7.IH" by blast
next
  case (8 ic a st)
  from "8.prems" have "st' \<in> set (concat (map (\<lambda>m. if length (rest_of m) < length (rest_of st)
        then rmatch ic (Star a) m else []) (rmatch ic a st)) @ [st])"
    by (subst (asm) rmatch.simps(8))
  then consider "st' = st"
    | m where "m \<in> set (rmatch ic a st)" "length (rest_of m) < length (rest_of st)"
        "st' \<in> set (rmatch ic (Star a) m)"
    by (auto split: if_splits)
  then show ?case
  proof cases
    case 1
    then show ?thesis by simp
  next
    case 2
    from "8.IH"(1) [OF 2(1)] "8.IH"(2) [OF 2(1) 2(2) 2(3)] show ?thesis by blast
  qed
next
  case (9 ic k a caps prev rest pos)
  from "9.prems" obtain m where m: "m \<in> set (rmatch ic a (caps, prev, rest, pos))"
    and e: "rest_of st' = rest_of m" by (auto split: prod.splits)
  from "9.IH" [OF m] e show ?case by simp
qed

lemma letterless_subset: "letterless s \<Longrightarrow> set t \<subseteq> set s \<Longrightarrow> letterless t"
  by (auto simp: letterless_def list_all_iff)

lemma rmatch_letterless:
  "needs_letter r \<Longrightarrow> letterless (rest_of st) \<Longrightarrow> rmatch ic r st = []"
proof (induction r arbitrary: st)
  case Eps
  then show ?case by simp
next
  case (Lit s)
  then show ?case by (simp add: lit_match_letterless)
next
  case (Chr items)
  obtain caps prev rest pos where st: "st = (caps, prev, rest, pos)" by (cases st) auto
  show ?case
  proof (cases rest)
    case Nil
    then show ?thesis using st by simp
  next
    case (Cons c cs)
    with Chr.prems st have "\<not> is_alpha c" by (simp add: letterless_def)
    with Chr.prems(1) have "\<not> class_match ic items c" by (intro class_match_letter) simp_all
    then show ?thesis using st Cons by simp
  qed
next
  case WordB
  then show ?case by simp
next
  case (Seq a b)
  show ?case
  proof (cases "needs_letter a")
    case True
    then show ?thesis using Seq by simp
  next
    case False
    with Seq.prems have nb: "needs_letter b" by simp
    have "rmatch ic b m = []" if "m \<in> set (rmatch ic a st)" for m
      using Seq.IH(2) [OF nb] letterless_subset [OF Seq.prems(2) rmatch_rest [OF that]] by simp
    then show ?thesis by simp
  qed
next
  case (Alt a b)
  then show ?case by simp
next
  case (Star r)
  then show ?case by simp
next
  case (Group k a)
  obtain caps prev rest pos where st: "st = (caps, prev, rest, pos)" by (cases st) auto
  with Group show ?case by simp
qed

lemma search_from_letterless:
  "needs_letter r \<Longrightarrow> letterless rest \<Longrightarrow> search_from ic r prev rest pos = None"
  by (induction rest arbitrary: prev pos) (simp_all add: rmatch_letterless letterless_def)

lemma re_finditer_letterless:
  "needs_letter r \<Longrightarrow> letterless text \<Longrightarrow> re_finditer ic r text = []"
  unfolding re_finditer_def
  by (subst finditer_from.simps) (simp add: search_from_letterless)

lemma patterns_need_letter: "list_all needs_letter extraction_patterns"
  by code_simp

lemma blank_not_alpha: "\<not> is_alpha CHR '' ''"
  by (simp add: is_alpha_def is_upper_def is_lower_def)

lemma clean_text_letterless: "letterless text \<Longrightarrow> letterless (clean_text text)"
proof -
  assume l: "letterless text"
  have "\<not> is_alpha c" if "c \<in> set (clean_text text)" for c
  proof -
    from that obtain d where d: "d \<in> set (sub_spaces (py_strip text))"
      and c: "c = (if keep_char d then d else CHR '' '')"
      by (auto simp: clean_text_def Let_def)
    from set_sub_spaces [OF d] have "d = CHR '' '' \<or> d \<in> set text"
      using py_strip_subset by blast
    with l have "\<not> is_alpha d" by (auto simp: letterless_def list_all_iff blank_not_alpha)
    with c show ?thesis by (simp add: blank_not_alpha)
  qed
  then show ?thesis by (simp add: letterless_def list_all_iff)
qed

lemma starts_with_subset: "starts_with s p \<Longrightarrow> set p \<subseteq> set s"
  by (induction s p rule: starts_with.induct) auto

lemma py_in_subset: "py_in sub s \<Longrightarrow> set sub \<subseteq> set s"
proof (induction s)
  case Nil
  then show ?case by simp
next
  case (Cons c cs)
  then show ?case using starts_with_subset [of "c # cs" sub] by auto
qed

lemma py_lower_letterless: "letterless s \<Longrightarrow> letterless (py_lower s)"
  by (simp add: letterless_def py_lower_def list_all_iff lower_char_alpha)

lemma py_in_letterless: "list_ex is_alpha v \<Longrightarrow> letterless s \<Longrightarrow> \<not> py_in v s"
  using py_in_subset by (fastforce simp: letterless_def list_all_iff list_ex_iff)

lemma first_variation_letterless:
  "list_all (list_ex is_alpha) vs \<Longrightarrow> letterless s \<Longrightarrow> first_variation vs s = None"
  by (induction vs) (simp_all add: py_in_letterless)

lemma database_has_letters:
  "list_all (\<lambda>entry. list_all (list_ex is_alpha) (snd entry)) medication_database"
  by code_simp

lemma rule_step_letterless:
  assumes "letterless text" "list_all (list_ex is_alpha) (snd entry)"
  shows "rule_step text st entry = Inr st"
proof -
  obtain medications found where st: "st = (medications, found)" by (cases st)
  obtain med_name variations where e: "entry = (med_name, variations)" by (cases entry)
  have "first_variation variations (py_lower text) = None"
    using assms e by (intro first_variation_letterless py_lower_letterless) simp_all
  then show ?thesis by (simp add: rule_step_def st e)
qed

lemma fold_err_unchanged: "(\<And>x. x \<in> set xs \<Longrightarrow> f s x = Inr s) \<Longrightarrow> fold_err f xs s = Inr s"
  by (induction xs) simp_all

lemma rule_based_extraction_letterless:
  assumes "letterless text"
  shows "rule_based_extraction text = Inr []"
proof -
  have "fold_err (rule_step text) medication_database ([], []) = Inr ([], [])"
  proof (rule fold_err_unchanged)
    fix entry assume "entry \<in> set medication_database"
    with database_has_letters have "list_all (list_ex is_alpha) (snd entry)"
      by (simp add: list_all_iff)
    with assms show "rule_step text ([], []) entry = Inr ([], [])" by (rule rule_step_letterless)
  qed
  then show ?thesis by (simp add: rule_based_extraction_def)
qed

lemma pattern_based_extraction_letterless:
  assumes "letterless text"
  shows "pattern_based_extraction text = Inr []"
proof -
  have "fold_err (\<lambda>st pattern. fold_err (pattern_step text pattern) (re_finditer True pattern text) st)
          extraction_patterns ([], []) = Inr ([], [])"
  proof (rule fold_err_unchanged)
    fix pattern assume "pattern \<in> set extraction_patterns"
    with patterns_need_letter have "needs_letter pattern" by (simp add: list_all_iff)
    with assms have "re_finditer True pattern text = []" by (intro re_finditer_letterless)
    then show "fold_err (pattern_step text pattern) (re_finditer True pattern text) ([], []) = Inr ([], [])"
      by simp
  qed
  then show ?thesis by (simp add: pattern_based_extraction_def)
qed

lemma merge_medications_Nil: "merge_medications [] = Inr []"
  by (simp add: merge_medications_def group_medications_def)

lemma extract_medications_letterless:
  assumes "letterless text"
  shows "extract_medications text = Inr []"
  using rule_based_extraction_letterless [OF clean_text_letterless [OF assms]]
    pattern_based_extraction_letterless [OF clean_text_letterless [OF assms]]
  by (simp add: extract_medications_def merge_medications_Nil)

lemma extract_medications_value_str: "extract_medications_value (PyStr text) = extract_medications text"
  by (simp add: extract_medications_value_def extract_medications_def Let_def)

text \<open>
  Claim C6, as stated, fails for an argument that is not a string: \<^verbatim>\<open>clean_text\<close> calls
  \<^verbatim>\<open>text.strip()\<close> without a check of the type, so \<^verbatim>\<open>None\<close> and a number raise
  \<^verbatim>\<open>AttributeError\<close>, in \<^verbatim>\<open>clean_text\<close> and in the pipeline, whose first call it is.
\<close>

theorem extract_medications_value_not_a_string:
  "clean_text_value PyNone = Inl AttributeError \<and>
   extract_medications_value PyNone = Inl AttributeError \<and>
   clean_text_value (PyInt 5) = Inl AttributeError \<and>
   extract_medications_value (PyInt 5) = Inl AttributeError"
  by (simp add: extract_medications_value_def)

text \<open>
  Claim C6, amended. For every ASCII string without a letter, the empty string and strings
  of symbols and digits among them, \<^verbatim>\<open>clean_text\<close> returns a string and the pipeline
  returns the empty list of medications; neither raises. For the empty string
  \<^verbatim>\<open>clean_text\<close> returns the empty string.
\<close>

theorem extract_medications_garbage:
  assumes "ascii_text text" and "letterless text"
  shows "clean_text_value (PyStr text) = Inr (clean_text text) \<and>
         extract_medications_value (PyStr text) = Inr [] \<and>
         (text = [] \<longrightarrow> clean_text text = [])"
  using extract_medications_letterless [OF assms(2)]
  by (simp add: extract_medications_value_str clean_text_def py_strip_def)

theorem extract_medications_garbage_witness:
  "ascii_text [] \<and> letterless [] \<and>
   extract_medications_value (PyStr []) = Inr [] \<and> clean_text [] = [] \<and>
   ascii_text ''#@ 12 %$!'' \<and> letterless ''#@ 12 %$!'' \<and>
   clean_text_value (PyStr ''#@ 12 %$!'') = Inr (clean_text ''#@ 12 %$!'') \<and>
   extract_medications_value (PyStr ''#@ 12 %$!'') = Inr []"
proof -
  have a1: "ascii_text []" and l1: "letterless []" by (simp_all add: ascii_text_def letterless_def)
  have a2: "ascii_text ''#@ 12 %$!''" by (simp add: ascii_text_def)
  have l2: "letterless ''#@ 12 %$!''" by code_simp
  from extract_medications_garbage [OF a1 l1] extract_medications_garbage [OF a2 l2] a1 l1 a2 l2
  show ?thesis by simp
qed

section \<open>The reminder scheduler's table\<close>

text \<open>
  Claim C2. The frequency-to-times translator on the labels of the stated table. The
  branch for \<^verbatim>\<open>'once daily' or 'daily'\<close> stands before the branches for twice, three
  times and four times daily, and each of those labels contains \<^verbatim>\<open>daily\<close>: they get the
  single time 09:00, and their own branches are never reached.
\<close>

theorem parse_frequency_table_rows:
  "parse_frequency ''once daily'' = [''09:00''] \<and>
   parse_frequency ''twice daily'' = [''09:00''] \<and>
   parse_frequency ''three times daily'' = [''09:00''] \<and>
   parse_frequency ''four times daily'' = [''09:00''] \<and>
   parse_frequency ''as needed'' = [] \<and>
   parse_frequency ''sos'' = []"
  by code_simp

section \<open>The times of the canonical labels\<close>

text \<open>The timing descriptions are those of the timing patterns, in their order.\<close>

lemma timing_patterns_descriptions: "map snd timing_patterns = timing_descriptions"
  by (simp add: timing_patterns_def timing_descriptions_def)

lemma times_daily_in_triplet_labels:
  "t \<in> set (0 # [4..<28]) \<Longrightarrow> py_str_nat t @ '' times daily'' \<in> set triplet_labels"
  unfolding triplet_labels_def set_append set_map
  by (rule UnI2) (erule imageI)

text \<open>The generic triplet branch produces labels of \<open>triplet_labels\<close> only.\<close>

lemma triplet_label_in_triplet_labels:
  assumes "m < 10" "a < 10" "n < 10"
  shows "triplet_label m a n \<in> set triplet_labels"
proof -
  let ?t = "m + a + n"
  consider "?t = 1" | "?t = 2" | "?t = 3" | "?t = 0 \<or> 4 \<le> ?t \<and> ?t < 28"
    using assms by arith
  then show ?thesis
  proof cases
    case 1
    then show ?thesis unfolding triplet_label_def Let_def triplet_labels_def by simp
  next
    case 2
    then show ?thesis unfolding triplet_label_def Let_def triplet_labels_def by simp
  next
    case 3
    then show ?thesis unfolding triplet_label_def Let_def triplet_labels_def by simp
  next
    case 4
    then have mem: "?t \<in> set (0 # [4..<28])"
      by (simp only: list.set set_upt atLeastLessThan_iff insert_iff)
    from 4 have "?t \<noteq> 1" "?t \<noteq> 2" "?t \<noteq> 3" by auto
    then have "triplet_label m a n = py_str_nat ?t @ '' times daily''"
      unfolding triplet_label_def Let_def by (simp del: py_str_nat.simps)
    with times_daily_in_triplet_labels [OF mem] show ?thesis by simp
  qed
qed

text \<open>
  Whatever the frequency interpreter returns is a canonical label. The generic triplet
  branch reads three groups of one decimal digit each.
\<close>

lemma first_timing_in: "first_timing ps s = Some d \<Longrightarrow> d \<in> snd ` set ps"
  by (induction ps s rule: first_timing.induct) (auto split: option.splits)

lemma first_frequency_in: "first_frequency fp s = Some f \<Longrightarrow> f \<in> fst ` set fp"
  by (induction fp s rule: first_frequency.induct) (auto split: if_splits)

lemma triplet_rmatch:
  "rmatch False triplet_pattern ([], prev, rest, pos) =
     (case rest of
        c1 # c2 # c3 # c4 # c5 # rest' \<Rightarrow>
          if is_digit c1 \<and> c2 = CHR ''-'' \<and> is_digit c3 \<and> c4 = CHR ''-'' \<and> is_digit c5
          then [([(3, pos + 4, pos + 5), (2, pos + 2, pos + 3), (1, pos, pos + 1)],
                 Some c5, rest', pos + 5)]
          else []
      | _ \<Rightarrow> [])"
  by (auto simp: triplet_pattern_def class_match_def char_eq_def split: list.splits)

lemma triplet_search:
  assumes "search_from False triplet_pattern prev rest pos = Some m" and "rest = drop pos text"
  shows "\<exists>s c1 c3 c5 rest'.
           m_caps m = [(3, s + 4, s + 5), (2, s + 2, s + 3), (1, s, s + 1)] \<and>
           is_digit c1 \<and> is_digit c3 \<and> is_digit c5 \<and>
           drop s text = c1 # CHR ''-'' # c3 # CHR ''-'' # c5 # rest'"
  using assms
proof (induction rest arbitrary: prev pos)
  case Nil
  then show ?case by (simp add: triplet_rmatch)
next
  case (Cons c cs)
  show ?case
  proof (cases "first_match pos (rmatch False triplet_pattern ([], prev, c # cs, pos))")
    case None
    with Cons.prems(1) have s: "search_from False triplet_pattern (Some c) cs (Suc pos) = Some m"
      by simp
    from Cons.prems(2) have "cs = drop (Suc pos) text"
      by (metis drop_Suc list.sel(3) tl_drop)
    from Cons.IH [OF s this] show ?thesis .
  next
    case (Some m')
    with Cons.prems(1) have mm: "m' = m" by simp
    from Some obtain c1 c2 c3 c4 c5 rest' where
      r: "c # cs = c1 # c2 # c3 # c4 # c5 # rest'"
         "is_digit c1 \<and> c2 = CHR ''-'' \<and> is_digit c3 \<and> c4 = CHR ''-'' \<and> is_digit c5"
      and caps: "m_caps m' = [(3, pos + 4, pos + 5), (2, pos + 2, pos + 3), (1, pos, pos + 1)]"
      unfolding triplet_rmatch by (auto split: list.splits if_splits)
    from r Cons.prems(2) have "drop pos text = c1 # CHR ''-'' # c3 # CHR ''-'' # c5 # rest'"
      by simp
    with r(2) caps mm show ?thesis by blast
  qed
qed

lemma slice_one: "drop s text = c # rest \<Longrightarrow> slice text s (s + 1) = [c]"
  by (simp add: slice_def)

lemma drop_shift: "drop s text = xs @ ys \<Longrightarrow> drop (s + length xs) text = ys"
  by (metis add.commute append_eq_conv_conj drop_drop)

lemma py_int_digit: "is_digit c \<Longrightarrow> py_int [c] < 10"
  by (auto simp: py_int_def is_digit_def digit_val_def)

lemma triplet_groups:
  assumes "re_search False triplet_pattern text = Some m"
  shows "py_int (findall_group text m 1) < 10 \<and> py_int (findall_group text m 2) < 10 \<and>
         py_int (findall_group text m 3) < 10"
proof -
  from assms have "search_from False triplet_pattern None text 0 = Some m"
    by (simp add: re_search_def)
  from triplet_search [OF this, of "text"] obtain s c1 c3 c5 rest' where
    caps: "m_caps m = [(3, s + 4, s + 5), (2, s + 2, s + 3), (1, s, s + 1)]" and
    d: "is_digit c1" "is_digit c3" "is_digit c5" and
    t: "drop s text = c1 # CHR ''-'' # c3 # CHR ''-'' # c5 # rest'" by auto
  have g1: "findall_group text m 1 = [c1]"
    using caps slice_one [OF t] by (simp add: findall_group_def re_group_def)
  have p2: "drop s text = [c1, CHR ''-''] @ (c3 # CHR ''-'' # c5 # rest')" using t by simp
  have l2: "length [c1, CHR ''-''] = 2" by simp
  from drop_shift [OF p2] have t2: "drop (s + 2) text = c3 # CHR ''-'' # c5 # rest'"
    unfolding l2 .
  have "slice text (s + 2) (s + 3) = [c3]" using t2 by (simp add: slice_def)
  then have g2: "findall_group text m 2 = [c3]"
    using caps by (simp add: findall_group_def re_group_def)
  have p4: "drop s text = [c1, CHR ''-'', c3, CHR ''-''] @ (c5 # rest')" using t by simp
  have l4: "length [c1, CHR ''-'', c3, CHR ''-''] = 4" by simp
  from drop_shift [OF p4] have t3: "drop (s + 4) text = c5 # rest'"
    unfolding l4 .
  have "slice text (s + 4) (s + 5) = [c5]" using t3 by (simp add: slice_def)
  then have g3: "findall_group text m 3 = [c5]"
    using caps by (simp add: findall_group_def re_group_def)
  show ?thesis using g1 g2 g3 d by (simp add: py_int_digit)
qed

lemma frequency_in_canonical: "frequency_in search_text \<in> set canonical_labels"
proof (cases "first_timing timing_patterns search_text")
  case (Some d)
  then have "d \<in> snd ` set timing_patterns" by (rule first_timing_in)
  then have "d \<in> set timing_descriptions"
    by (simp add: timing_patterns_def timing_descriptions_def)
  with Some show ?thesis by (simp add: frequency_in_def canonical_labels_def)
next
  case nt: None
  show ?thesis
  proof (cases "first_frequency frequency_patterns search_text")
    case (Some f)
    then have "f \<in> fst ` set frequency_patterns" by (rule first_frequency_in)
    with Some nt show ?thesis by (simp add: frequency_in_def canonical_labels_def)
  next
    case nf: None
    show ?thesis
    proof (cases "re_search False triplet_pattern search_text")
      case None
      with nt nf show ?thesis by (simp add: frequency_in_def canonical_labels_def)
    next
      case (Some m)
      from triplet_groups [OF Some] have
        "triplet_label (py_int (findall_group search_text m 1))
                       (py_int (findall_group search_text m 2))
                       (py_int (findall_group search_text m 3)) \<in> set triplet_labels"
        by (intro triplet_label_in_triplet_labels) simp_all
      with nt nf Some show ?thesis by (simp add: frequency_in_def canonical_labels_def)
    qed
  qed
qed

lemma extract_frequency_canonical:
  "extract_frequency_near_medication text mention = Inr f \<Longrightarrow> f \<in> set canonical_labels"
proof -
  assume a: "extract_frequency_near_medication text mention = Inr f"
  have daily: "''daily'' \<in> set canonical_labels" by (simp add: canonical_labels_def)
  show ?thesis
  proof (cases "py_find (py_lower text) (py_lower mention)")
    case None
    with a have "fuzzy_fallback text ''daily'' = Inr f"
      by (simp add: extract_frequency_near_medication_def Let_def)
    then have "f = ''daily''" by (auto simp: fuzzy_fallback_def split: list.splits)
    with daily show ?thesis by simp
  next
    case (Some i)
    with a obtain s where "f = frequency_in s"
      by (auto simp: extract_frequency_near_medication_def Let_def)
    then show ?thesis using frequency_in_canonical by simp
  qed
qed

text \<open>
  Claim C3, as stated, fails: \<open>every 6 hours\<close> is a key of the frequency lexicon, and its
  times end with midnight, after 18:00.
\<close>

theorem parse_frequency_every_6_hours_not_sorted:
  "''every 6 hours'' \<in> set canonical_labels \<and>
   parse_frequency ''every 6 hours'' = [''06:00'', ''12:00'', ''18:00'', ''00:00''] \<and>
   \<not> sorted (map clock_minutes (parse_frequency ''every 6 hours''))"
  by code_simp

text \<open>
  Claim C3, amended. For every canonical label the times are valid \<^verbatim>\<open>HH:MM\<close> strings without
  duplicates. They are in non-decreasing order for every label other than
  \<open>every 6 hours\<close> and \<open>every 8 hours\<close>; for these two the list is in non-decreasing order up
  to its last entry, which is midnight.
\<close>

theorem parse_frequency_canonical_times:
  "\<forall>l \<in> set canonical_labels.
     (\<forall>t \<in> set (parse_frequency l). valid_hhmm t) \<and>
     distinct (parse_frequency l) \<and>
     (if l = ''every 6 hours'' \<or> l = ''every 8 hours''
      then sorted (map clock_minutes (butlast (parse_frequency l))) \<and>
           last (parse_frequency l) = ''00:00''
      else sorted (map clock_minutes (parse_frequency l)))"
  by code_simp

theorem parse_frequency_canonical_times_witness:
  "''every 8 hours'' \<in> set canonical_labels \<and>
   list_all valid_hhmm (parse_frequency ''every 8 hours'') \<and>
   distinct (parse_frequency ''every 8 hours'') \<and>
   sorted (map clock_minutes (butlast (parse_frequency ''every 8 hours''))) \<and>
   last (parse_frequency ''every 8 hours'') = ''00:00''"
proof -
  have mem: "''every 8 hours'' \<in> set canonical_labels" by code_simp
  from parse_frequency_canonical_times [rule_format, OF mem] mem show ?thesis
    by (simp add: list_all_iff)
qed

section \<open>Expected doses\<close>

text \<open>
  Claim C4. For the label \<open>twice daily\<close> and a start ten days before now the expected
  doses are 10, not 20: the label contains \<^verbatim>\<open>daily\<close>, so the first branch returns the
  days unmultiplied and the \<^verbatim>\<open>twice daily\<close> branch is never reached.
\<close>

theorem calculate_expected_doses_twice_daily_ten_days:
  "calculate_expected_doses ''twice daily'' (start_date + 10 * 86400) start_date = 10"
proof -
  have "py_in ''daily'' (py_lower ''twice daily'')" by code_simp
  then show ?thesis
    by (simp add: calculate_expected_doses_def timedelta_days_def Let_def)
qed

end
